theory Spec2Isabelle
  imports Complex_Main
begin

section \<open>The Zephyr controller plugin (zephyr\_controller.cpp)\<close>

text \<open>
  A shallow embedding of \<^verbatim>\<open>ZephyrController\<close>: its constructor, \<^verbatim>\<open>Load\<close>,
  \<^verbatim>\<open>UpdateStates\<close>, \<^verbatim>\<open>CalculateJoints\<close>, \<^verbatim>\<open>SetControl\<close> and
  \<^verbatim>\<open>SetPIDParams\<close>.

  Conventions of the embedding:
  \<^item> a C++ \<^verbatim>\<open>double\<close> is a \<^typ>\<open>real\<close>: rounding, infinities and NaN are not
    modelled. The one exception is the interval test of the pose publisher, where the
    rounding decides a branch: there the double arithmetic is modelled bit for bit;
  \<^item> the simulator's \<^verbatim>\<open>common::Time\<close> (seconds and nanoseconds, kept normalised by
    the library) is its total number of nanoseconds, an \<^typ>\<open>int\<close>;
  \<^item> both handlers take \<^verbatim>\<open>update_mutex_\<close> for their whole body, so each of them is
    one atomic function on the controller's state;
  \<^item> what the host simulation answers during a tick (clock, pose, number of subscribers
    and publishers) is an input of the tick; what the tick sends out (pose messages,
    \<^verbatim>\<open>SetCommand\<close> calls, actuator commands) is an output of it;
  \<^item> \<^verbatim>\<open>joints_[k]\<close> with \<^verbatim>\<open>k\<close> past the end of the vector is undefined behaviour in
    C++; the model returns the error \<open>OutOfRange\<close> there.
\<close>

subsection \<open>Simulation time\<close>

type_synonym Time = int

definition Time_Double :: "Time \<Rightarrow> real" where
  \<comment> \<open>\<^verbatim>\<open>common::Time::Double()\<close> as a real number: the time in seconds.\<close>
  "Time_Double t = real_of_int t / 1000000000"

definition Time_of_double :: "real \<Rightarrow> Time" where
  \<comment> \<open>\<^verbatim>\<open>common::Time(double)\<close>: whole seconds by \<^verbatim>\<open>floor\<close>, the rest rounded to
      nanoseconds. \<^verbatim>\<open>CalculateJoints\<close> takes its \<^verbatim>\<open>dt\<close> as a \<^verbatim>\<open>common::Time\<close>
      and is called with a \<^verbatim>\<open>double\<close>, so this conversion runs on every call.\<close>
  "Time_of_double x =
     (let sec = \<lfloor>x\<rfloor>;
          nsec = round ((x - of_int sec) * 1000000000)
      in sec * 1000000000 + nsec)"

subsection \<open>Double arithmetic of the pose interval test\<close>

text \<open>
  A finite double is a pair \<open>(m, e)\<close> of integers standing for \<open>m * 2 ^ e\<close>. A product
  or a sum of two such pairs is computed exactly and then rounded to 53 significant
  bits, to the nearest value and to the even one on a tie, as IEEE 754 binary64
  arithmetic does in its default rounding mode, one rounding for each operation.
  Overflow and subnormal numbers are not modelled: simulation times in milliseconds are
  far from both.
\<close>

function bit_length :: "int \<Rightarrow> nat" where
  "bit_length m = (if m \<le> 0 then 0 else Suc (bit_length (m div 2)))"
  by pat_completeness auto
termination
  by (relation "measure nat") auto

declare bit_length.simps [simp del]

definition round_nearest_even :: "int \<Rightarrow> nat \<Rightarrow> int" where
  \<comment> \<open>\<open>m / 2 ^ k\<close> rounded to the nearest integer, a tie to the even one.\<close>
  "round_nearest_even m k =
     (let q = m div 2 ^ k; r = m mod 2 ^ k
      in if 2 ^ k < 2 * r \<or> (2 * r = 2 ^ k \<and> odd q) then q + 1 else q)"

definition double_round :: "int \<times> int \<Rightarrow> int \<times> int" where
  "double_round x =
     (let m = fst x; e = snd x; k = bit_length \<bar>m\<bar> - 53
      in (round_nearest_even m k, e + int k))"

definition double_mult :: "int \<times> int \<Rightarrow> int \<times> int \<Rightarrow> int \<times> int" where
  "double_mult x y = double_round (fst x * fst y, snd x + snd y)"

definition double_add :: "int \<times> int \<Rightarrow> int \<times> int \<Rightarrow> int \<times> int" where
  "double_add x y =
     (let e = min (snd x) (snd y)
      in double_round (fst x * 2 ^ nat (snd x - e) + fst y * 2 ^ nat (snd y - e), e))"

definition double_of_int :: "int \<Rightarrow> int \<times> int" where
  \<comment> \<open>The conversion of a 32-bit integer, which is exact.\<close>
  "double_of_int n = (n, 0)"

definition double_1e_9 :: "int \<times> int" where
  \<comment> \<open>The literal \<^verbatim>\<open>1e-9\<close>, that is the double nearest to it:
      \<^verbatim>\<open>0x1.12E0BE826D695p-30\<close>.\<close>
  "double_1e_9 = (4835703278458517, - 82)"

definition double_val :: "int \<times> int \<Rightarrow> real" where
  "double_val x =
     (if 0 \<le> snd x then real_of_int (fst x) * 2 ^ nat (snd x)
      else real_of_int (fst x) / 2 ^ nat (- snd x))"

definition Time_sec :: "Time \<Rightarrow> int" where
  \<comment> \<open>The field \<^verbatim>\<open>sec\<close> of a normalised \<^verbatim>\<open>common::Time\<close>: the library keeps
      \<^verbatim>\<open>sec\<close> and \<^verbatim>\<open>nsec\<close> of the same sign, with less than a second in
      \<^verbatim>\<open>nsec\<close>.\<close>
  "Time_sec t = sgn t * (\<bar>t\<bar> div 1000000000)"

definition Time_nsec :: "Time \<Rightarrow> int" where
  "Time_nsec t = sgn t * (\<bar>t\<bar> mod 1000000000)"

definition Time_Double_rounded :: "Time \<Rightarrow> int \<times> int" where
  \<comment> \<open>\<^verbatim>\<open>common::Time::Double()\<close> as the library computes it:
      \<^verbatim>\<open>(double)sec + (double)nsec * 1e-9\<close>.\<close>
  "Time_Double_rounded t =
     double_add (double_of_int (Time_sec t))
       (double_mult (double_of_int (Time_nsec t)) double_1e_9)"

subsection \<open>Host data and messages\<close>

record Pose3d =
  Pos_X :: real
  Pos_Y :: real
  Pos_Z :: real
  Rot_X :: real
  Rot_Y :: real
  Rot_Z :: real
  Rot_W :: real
  Rot_Euler_X :: real
  Rot_Euler_Y :: real
  Rot_Euler_Z :: real

text \<open>
  \<open>Rot_Euler_X\<close>, \<open>Rot_Euler_Y\<close> and \<open>Rot_Euler_Z\<close> stand for the components of
  \<^verbatim>\<open>pose.Rot().Euler()\<close>: the Euler decomposition is computed by the host's maths
  library and is taken here as part of what the host answers.
\<close>

record Pose_msg =
  position_x :: real
  position_y :: real
  position_z :: real
  orientation_x :: real
  orientation_y :: real
  orientation_z :: real
  orientation_w :: real

record Twist =
  linear_x :: real
  linear_y :: real
  linear_z :: real
  angular_x :: real
  angular_y :: real
  angular_z :: real

subsection \<open>The PID regulator and the joint binding\<close>

record PIDRegulator =
  pGain :: real
  iGain :: real
  dGain :: real
  integralMin :: real
  integralMax :: real
  outputMin :: real
  outputMax :: real
  accumulatedIntegral :: real
  previousError :: real

definition clamp :: "real \<Rightarrow> real \<Rightarrow> real \<Rightarrow> real" where
  \<comment> \<open>Modelled from the spec: \<open>clamp(x, lo, hi)\<close> of section 4.1, which the spec uses
      without defining it; the usual saturation, lower bound tested first.\<close>
  "clamp x lo hi = (if x < lo then lo else if hi < x then hi else x)"

definition compute :: "PIDRegulator \<Rightarrow> real \<Rightarrow> real \<Rightarrow> real \<Rightarrow> PIDRegulator \<times> real" where
  \<comment> \<open>Modelled from the spec: the regulator's compute step is not in
      zephyr\_controller.cpp. Section 4.1: with \<open>dt = 0\<close> the integral and derivative
      steps are skipped and the output is purely proportional; otherwise the integral
      accumulates \<open>error * dt\<close> and is clamped, the derivative is
      \<open>(error - previousError) / dt\<close>, computed only when \<open>dt > 0\<close>, and the raw output
      \<open>p*error + i*accumulatedIntegral + d*derivative\<close> is clamped. \<open>previousError\<close> is
      stored on every call. For \<open>dt < 0\<close> the integral step runs as written (it is
      skipped for \<open>dt = 0\<close> only) and no derivative is computed.\<close>
  "compute r target measured dt =
     (let error = target - measured in
      if dt = 0 then
        (r\<lparr>previousError := error\<rparr>, clamp (pGain r * error) (outputMin r) (outputMax r))
      else
        let integral = clamp (accumulatedIntegral r + error * dt) (integralMin r) (integralMax r);
            derivative = (if 0 < dt then (error - previousError r) / dt else 0);
            rawOutput = pGain r * error + iGain r * integral + dGain r * derivative
        in (r\<lparr>accumulatedIntegral := integral, previousError := error\<rparr>,
            clamp rawOutput (outputMin r) (outputMax r)))"

record JointControl =
  jointName :: string
  jointType :: string
  joint :: "nat option"
  pid :: PIDRegulator

text \<open>
  \<open>joint\<close> is the handle \<^verbatim>\<open>physics::JointPtr\<close> that the host returned for the name:
  \<open>None\<close> is \<^verbatim>\<open>nullptr\<close>. \<open>jointType\<close> keeps the configured type string (the
  conversion done by \<^verbatim>\<open>SetJointType\<close> is in the header, which is not among the sources).
\<close>

definition PIDRegulator_default :: PIDRegulator where
  \<comment> \<open>Modelled from the spec: the regulator of a new binding, whose constructor is not
      in zephyr\_controller.cpp. Section 4.4: without a gain block the regulator has zero
      gains; the clamps and the state start at zero as well.\<close>
  "PIDRegulator_default =
     \<lparr>pGain = 0, iGain = 0, dGain = 0, integralMin = 0, integralMax = 0,
      outputMin = 0, outputMax = 0, accumulatedIntegral = 0, previousError = 0\<rparr>"

definition JointControl_new :: JointControl where
  \<comment> \<open>Modelled from the spec: \<^verbatim>\<open>new JointControl()\<close>, a binding with no name, no
      actuator and the default regulator.\<close>
  "JointControl_new =
     \<lparr>jointName = [], jointType = [], joint = None, pid = PIDRegulator_default\<rparr>"

definition JointControl_SetPIDParams ::
  "JointControl \<Rightarrow> real \<Rightarrow> real \<Rightarrow> real \<Rightarrow> real \<Rightarrow> real \<Rightarrow> real \<Rightarrow> real \<Rightarrow> JointControl" where
  \<comment> \<open>Modelled from the spec: \<^verbatim>\<open>JointControl::SetPIDParams(p, i, d, imax, imin, cmdmax,
      cmdmin)\<close> attaches the configured gains and clamps to the binding's regulator.\<close>
  "JointControl_SetPIDParams jc p i d imax imin cmdmax cmdmin =
     jc\<lparr>pid := (pid jc)\<lparr>pGain := p, iGain := i, dGain := d,
                          integralMax := imax, integralMin := imin,
                          outputMax := cmdmax, outputMin := cmdmin\<rparr>\<rparr>"

definition JointControl_SetCommand ::
  "JointControl \<Rightarrow> real \<Rightarrow> Time \<Rightarrow> JointControl \<times> (nat \<times> real) list" where
  \<comment> \<open>Modelled from the spec: \<^verbatim>\<open>JointControl::SetCommand\<close> (section 4.2,
      \<open>applyCommand\<close>): the regulator computes from the target, a measurement fixed at
      zero and \<open>dt\<close> in seconds, and the output goes to the bound actuator; a binding
      whose actuator was not resolved does nothing. The result lists the commands sent
      to the host, each with the actuator's handle.\<close>
  "JointControl_SetCommand jc targetValue dt =
     (case joint jc of
        None \<Rightarrow> (jc, [])
      | Some h \<Rightarrow>
          (let (r, out) = compute (pid jc) targetValue 0 (Time_Double dt)
           in (jc\<lparr>pid := r\<rparr>, [(h, out)])))"

subsection \<open>The controller\<close>

record ZephyrController =
  lastUpdateTime :: Time
  lastPosePublishTime :: Time
  targetThrottle :: real
  targetPitch :: real
  targetRoll :: real
  poseUpdateRate :: int
  joints :: "JointControl list"

definition ZephyrController_new :: ZephyrController where
  \<comment> \<open>The constructor. \<open>lastPosePublishTime\<close> is not assigned there:
      \<^verbatim>\<open>common::Time\<close> default-constructs to zero. \<open>joints\<close> starts empty.\<close>
  "ZephyrController_new =
     \<lparr>lastUpdateTime = 0, lastPosePublishTime = 0,
      targetThrottle = 0, targetPitch = 0, targetRoll = 0,
      poseUpdateRate = 100, joints = []\<rparr>"

subsubsection \<open>Configuration\<close>

record joint_control_sdf =
  sdf_name :: string
  sdf_type :: string
  sdf_elements :: "string \<rightharpoonup> real"

record plugin_sdf =
  sdf_poseUpdateRate :: "int option"
  sdf_joint_control :: "joint_control_sdf list"

text \<open>
  The plugin's SDF element: its \<^verbatim>\<open>poseUpdateRate\<close> child, if any, and its
  \<^verbatim>\<open>joint_control\<close> children in document order. The numeric children of a
  \<^verbatim>\<open>joint_control\<close> element are a map from the child's name to its value.
\<close>

definition HasElement :: "joint_control_sdf \<Rightarrow> string \<Rightarrow> bool" where
  "HasElement e k = (sdf_elements e k \<noteq> None)"

definition Get_double :: "joint_control_sdf \<Rightarrow> string \<Rightarrow> real" where
  \<comment> \<open>\<^verbatim>\<open>Get<double>(key)\<close>: the value-initialised default \<open>0\<close> when the child is
      missing.\<close>
  "Get_double e k = (case sdf_elements e k of None \<Rightarrow> 0 | Some v \<Rightarrow> v)"

definition SetPIDParams :: "JointControl \<Rightarrow> joint_control_sdf \<Rightarrow> JointControl" where
  "SetPIDParams jointControl sdf =
     (if HasElement sdf ''p'' then
        (let p = Get_double sdf ''p'';
             i = Get_double sdf ''i'';
             d = Get_double sdf ''d'';
             imax = Get_double sdf ''imax'';
             imin = Get_double sdf ''imin'';
             cmdmax = Get_double sdf ''cmdmax'';
             cmdmin = Get_double sdf ''cmdmin''
         in JointControl_SetPIDParams jointControl p i d imax imin cmdmax cmdmin)
      else jointControl)"

datatype log_entry = gzerr string

definition Load_joint ::
  "(string \<rightharpoonup> nat) \<Rightarrow> joint_control_sdf \<Rightarrow> JointControl \<times> log_entry list" where
  \<comment> \<open>The body of the loop in \<^verbatim>\<open>Load\<close>, up to \<^verbatim>\<open>push_back\<close>. \<open>GetJoint\<close> is the
      host's \<^verbatim>\<open>model_->GetJoint\<close>.\<close>
  "Load_joint GetJoint jointControlSDF =
     (let jointControl = JointControl_new;
          jointControl = jointControl\<lparr>jointName := sdf_name jointControlSDF\<rparr>;
          jointControl = jointControl\<lparr>jointType := sdf_type jointControlSDF\<rparr>;
          jointControl = jointControl\<lparr>joint := GetJoint (jointName jointControl)\<rparr>;
          errs = (if joint jointControl = None
                 then [gzerr (''cannot get joint with name:'' @ jointName jointControl)]
                 else [])
      in (SetPIDParams jointControl jointControlSDF, errs))"

fun Load_joints ::
  "(string \<rightharpoonup> nat) \<Rightarrow> joint_control_sdf list \<Rightarrow> JointControl list \<Rightarrow> log_entry list
     \<Rightarrow> JointControl list \<times> log_entry list" where
  \<comment> \<open>The \<^verbatim>\<open>while (jointControlSDF)\<close> loop over the \<^verbatim>\<open>joint_control\<close> siblings.\<close>
  "Load_joints GetJoint [] js errs = (js, errs)"
| "Load_joints GetJoint (e # es) js errs =
     (let (jointControl, l) = Load_joint GetJoint e
      in Load_joints GetJoint es (js @ [jointControl]) (errs @ l))"

definition Load ::
  "ZephyrController \<Rightarrow> (string \<rightharpoonup> nat) \<Rightarrow> plugin_sdf \<Rightarrow> ZephyrController \<times> log_entry list" where
  \<comment> \<open>The part of \<^verbatim>\<open>Load\<close> that writes the controller's state: the pose interval and
      the joint list. The ROS set-up that follows it (subscription, publisher, update
      hook) decides only whether the handlers are ever called.\<close>
  "Load c GetJoint sdf =
     (let c = c\<lparr>poseUpdateRate := (case sdf_poseUpdateRate sdf of None \<Rightarrow> 0 | Some n \<Rightarrow> n)\<rparr>;
          (js, errs) = Load_joints GetJoint (sdf_joint_control sdf) (joints c) []
      in (c\<lparr>joints := js\<rparr>, errs))"

subsubsection \<open>The command handler\<close>

definition SetControl :: "ZephyrController \<Rightarrow> Twist \<Rightarrow> ZephyrController" where
  "SetControl c twist =
     c\<lparr>targetThrottle := linear_x twist,
       targetPitch := angular_y twist,
       targetRoll := angular_x twist\<rparr>"

subsubsection \<open>The tick\<close>

datatype error = OutOfRange

record tick_input =
  SimTime :: Time
  pose_NumSubscribers :: nat
  control_NumPublishers :: nat
  WorldPose :: Pose3d

record joint_output =
  calls :: "(nat \<times> real \<times> Time) list"
  commands :: "(nat \<times> real) list"

text \<open>
  \<open>calls\<close> lists the \<^verbatim>\<open>SetCommand\<close> calls of a tick in the order they are made, each
  as the slot of \<^verbatim>\<open>joints_\<close>, the target value and \<open>dt\<close>; \<open>commands\<close> lists what
  reached the host's actuators.
\<close>

definition SetCommand_at ::
  "JointControl list \<Rightarrow> nat \<Rightarrow> real \<Rightarrow> Time \<Rightarrow> joint_output
     \<Rightarrow> error + JointControl list \<times> joint_output" where
  \<comment> \<open>\<^verbatim>\<open>joints_[k]->SetCommand(v, dt)\<close>.\<close>
  "SetCommand_at js k v dt out =
     (if k < length js then
        (let (jc, cmds) = JointControl_SetCommand (js ! k) v dt
         in Inr (js[k := jc],
                 out\<lparr>calls := calls out @ [(k, v, dt)], commands := commands out @ cmds\<rparr>))
      else Inl OutOfRange)"

definition CalculateJoints ::
  "ZephyrController \<Rightarrow> Pose3d \<Rightarrow> real \<Rightarrow> real \<Rightarrow> real \<Rightarrow> Time
     \<Rightarrow> error + ZephyrController \<times> joint_output" where
  "CalculateJoints c pose targetThrottle' targetPitch' targetRoll' dt =
     (let pitch = Rot_Euler_X pose;
          roll = Rot_Euler_Y pose;
          pitch = pitch - targetPitch';
          roll = roll - targetRoll'
      in case SetCommand_at (joints c) 0 targetThrottle' dt \<lparr>calls = [], commands = []\<rparr> of
           Inl e \<Rightarrow> Inl e
         | Inr (js, out) \<Rightarrow>
             (case SetCommand_at js 1 (pitch - roll) dt out of
                Inl e \<Rightarrow> Inl e
              | Inr (js, out) \<Rightarrow>
                  (case SetCommand_at js 2 (pitch + roll) dt out of
                     Inl e \<Rightarrow> Inl e
                   | Inr (js, out) \<Rightarrow> Inr (c\<lparr>joints := js\<rparr>, out))))"

definition Pose_msg_of :: "Pose3d \<Rightarrow> Pose_msg" where
  "Pose_msg_of pose =
     \<lparr>position_x = Pos_X pose, position_y = Pos_Y pose, position_z = Pos_Z pose,
      orientation_x = Rot_X pose, orientation_y = Rot_Y pose,
      orientation_z = Rot_Z pose, orientation_w = Rot_W pose\<rparr>"

definition PublishPose :: "ZephyrController \<Rightarrow> tick_input \<Rightarrow> ZephyrController \<times> Pose_msg list" where
  \<comment> \<open>The first block of \<^verbatim>\<open>UpdateStates\<close> (the pose publisher). \<open>dt'\<close> is the
      double \<^verbatim>\<open>(currTime - lastPosePublishTime).Double()*1000\<close>, and
      \<^verbatim>\<open>dt_ > poseUpdateRate\<close> compares it with the integer converted to double.\<close>
  "PublishPose c inp =
     (let currTime = SimTime inp in
      if 0 < pose_NumSubscribers inp then
        (let dt' = double_mult (Time_Double_rounded (currTime - lastPosePublishTime c))
                     (double_of_int 1000) in
         if double_val (double_of_int (poseUpdateRate c)) < double_val dt' then
           (c\<lparr>lastPosePublishTime := currTime\<rparr>, [Pose_msg_of (WorldPose inp)])
         else (c, []))
      else (c, []))"

definition UpdateStates ::
  "ZephyrController \<Rightarrow> tick_input
     \<Rightarrow> Pose_msg list \<times> (error + ZephyrController \<times> joint_output)" where
  \<comment> \<open>One tick. The pose messages are published before the joints are touched, so they
      are returned beside the result of the rest.\<close>
  "UpdateStates c inp =
     (let currTime = SimTime inp;
          (c, published) = PublishPose c inp
      in if 0 < control_NumPublishers inp then
           (let dt' = Time_Double (currTime - lastUpdateTime c);
                dt' = (if Time_Double (lastUpdateTime c) = 0 then 0 else dt')
            in case CalculateJoints c (WorldPose inp) (targetThrottle c) (targetPitch c)
                      (targetRoll c) (Time_of_double dt') of
                 Inl e \<Rightarrow> (published, Inl e)
               | Inr (c, out) \<Rightarrow> (published, Inr (c\<lparr>lastUpdateTime := currTime\<rparr>, out)))
         else (published, Inr (c\<lparr>lastUpdateTime := currTime\<rparr>, \<lparr>calls = [], commands = []\<rparr>)))"

subsection \<open>Sequences of regulator calls\<close>

text \<open>
  A sequence of calls to the compute step, each given as (target, measured, dt): the
  regulator after every call together with the output of that call.
\<close>

fun compute_all :: "PIDRegulator \<Rightarrow> (real \<times> real \<times> real) list \<Rightarrow> (PIDRegulator \<times> real) list" where
  "compute_all r [] = []"
| "compute_all r ((target, measured, dt) # xs) =
     (let (r', out) = compute r target measured dt in (r', out) # compute_all r' xs)"

definition in_range :: "real \<Rightarrow> real \<Rightarrow> real \<Rightarrow> bool" where
  "in_range x lo hi = (lo \<le> x \<and> x \<le> hi)"

subsection \<open>A configuration and a tick to evaluate on\<close>

definition example_regulator :: PIDRegulator where
  "example_regulator =
     \<lparr>pGain = 1, iGain = 1, dGain = 1, integralMin = - 1, integralMax = 1,
      outputMin = - 2, outputMax = 2, accumulatedIntegral = 0, previousError = 0\<rparr>"

definition example_GetJoint :: "string \<rightharpoonup> nat" where
  "example_GetJoint =
     [''propeller_joint'' \<mapsto> 0, ''flap_left_joint'' \<mapsto> 1, ''flap_right_joint'' \<mapsto> 2]"

definition example_sdf :: plugin_sdf where
  "example_sdf =
     \<lparr>sdf_poseUpdateRate = Some 100,
      sdf_joint_control =
        [\<lparr>sdf_name = ''propeller_joint'', sdf_type = ''throttle'',
          sdf_elements = [''p'' \<mapsto> 2, ''i'' \<mapsto> 1, ''d'' \<mapsto> 0, ''imax'' \<mapsto> 1,
                          ''imin'' \<mapsto> - 1, ''cmdmax'' \<mapsto> 10, ''cmdmin'' \<mapsto> - 10]\<rparr>,
         \<lparr>sdf_name = ''flap_left_joint'', sdf_type = ''flap_left'',
          sdf_elements = [''p'' \<mapsto> 1, ''cmdmax'' \<mapsto> 1, ''cmdmin'' \<mapsto> - 1]\<rparr>,
         \<lparr>sdf_name = ''flap_right_joint'', sdf_type = ''flap_right'',
          sdf_elements = Map.empty\<rparr>]\<rparr>"

definition example_controller :: ZephyrController where
  "example_controller = fst (Load ZephyrController_new example_GetJoint example_sdf)"

definition example_controller_9 :: ZephyrController where
  "example_controller_9 =
     fst (Load ZephyrController_new example_GetJoint (example_sdf\<lparr>sdf_poseUpdateRate := Some 9\<rparr>))"

definition example_pose :: Pose3d where
  "example_pose =
     \<lparr>Pos_X = 1, Pos_Y = 2, Pos_Z = 30, Rot_X = 0, Rot_Y = 0, Rot_Z = 0, Rot_W = 1,
      Rot_Euler_X = 3 / 10, Rot_Euler_Y = 0, Rot_Euler_Z = 0\<rparr>"

definition example_tick :: tick_input where
  "example_tick =
     \<lparr>SimTime = 5000000000, pose_NumSubscribers = 1, control_NumPublishers = 1,
      WorldPose = example_pose\<rparr>"

definition example_twist :: Twist where
  "example_twist =
     \<lparr>linear_x = 1 / 2, linear_y = 0, linear_z = 0,
      angular_x = 0, angular_y = 1 / 10, angular_z = 0\<rparr>"

section \<open>Properties\<close>

subsection \<open>Time conversions\<close>

lemma Time_of_double_Time_Double: "Time_of_double (Time_Double t) = t"
proof -
  define q where "q = t div 1000000000"
  define m where "m = t mod 1000000000"
  have t: "t = q * 1000000000 + m" and m: "0 \<le> m" "m < 1000000000"
    by (simp_all add: q_def m_def)
  have x: "Time_Double t = of_int q + of_int m / 1000000000"
    by (simp add: Time_Double_def t add_divide_distrib)
  have fl: "\<lfloor>Time_Double t\<rfloor> = q"
    unfolding x using m by (simp add: floor_unique)
  have "(Time_Double t - of_int q) * 1000000000 = of_int m"
    by (simp add: x)
  then have r: "round ((Time_Double t - of_int q) * 1000000000) = m"
    by simp
  show ?thesis
    unfolding Time_of_double_def Let_def fl r using t by simp
qed

lemma Time_Double_eq_0: "(Time_Double t = 0) = (t = 0)"
  by (simp add: Time_Double_def)

lemma Time_of_double_0: "Time_of_double 0 = 0"
  by (simp add: Time_of_double_def)

subsection \<open>The joint-command step\<close>

lemma SetCommand_at_in_range:
  "k < length js \<Longrightarrow>
   SetCommand_at js k v dt out =
     Inr (js[k := fst (JointControl_SetCommand (js ! k) v dt)],
          out\<lparr>calls := calls out @ [(k, v, dt)],
              commands := commands out @ snd (JointControl_SetCommand (js ! k) v dt)\<rparr>)"
  by (simp add: SetCommand_at_def split: prod.splits)

lemma SetCommand_at_out_of_range:
  "length js \<le> k \<Longrightarrow> SetCommand_at js k v dt out = Inl OutOfRange"
  by (simp add: SetCommand_at_def)

lemma CalculateJoints_ok:
  assumes "3 \<le> length (joints c)"
  shows "\<exists>c' out. CalculateJoints c pose tT tP tR dt = Inr (c', out)
         \<and> calls out = [(0, tT, dt),
                          (1, (Rot_Euler_X pose - tP) - (Rot_Euler_Y pose - tR), dt),
                          (2, (Rot_Euler_X pose - tP) + (Rot_Euler_Y pose - tR), dt)]
         \<and> length (joints c') = length (joints c)
         \<and> c' = c\<lparr>joints := joints c'\<rparr>"
proof -
  have l: "0 < length (joints c)" "1 < length (joints c)" "2 < length (joints c)"
    using assms by auto
  show ?thesis
    using l by (simp add: CalculateJoints_def Let_def SetCommand_at_in_range)
qed

lemma CalculateJoints_error:
  assumes "length (joints c) < 3"
  shows "CalculateJoints c pose tT tP tR dt = Inl OutOfRange"
proof -
  consider "length (joints c) = 0" | "length (joints c) = 1" | "length (joints c) = 2"
    using assms by linarith
  then show ?thesis
    by cases (simp_all add: CalculateJoints_def Let_def SetCommand_at_in_range SetCommand_at_out_of_range)
qed

lemma PublishPose_frame:
  "lastUpdateTime (fst (PublishPose c inp)) = lastUpdateTime c"
  "joints (fst (PublishPose c inp)) = joints c"
  "targetThrottle (fst (PublishPose c inp)) = targetThrottle c"
  "targetPitch (fst (PublishPose c inp)) = targetPitch c"
  "targetRoll (fst (PublishPose c inp)) = targetRoll c"
  "poseUpdateRate (fst (PublishPose c inp)) = poseUpdateRate c"
  by (simp_all add: PublishPose_def Let_def)

lemma UpdateStates_unfold:
  "UpdateStates c inp =
     (if 0 < control_NumPublishers inp then
        (case CalculateJoints (fst (PublishPose c inp)) (WorldPose inp)
                (targetThrottle c) (targetPitch c) (targetRoll c)
                (if lastUpdateTime c = 0 then 0 else SimTime inp - lastUpdateTime c) of
           Inl e \<Rightarrow> (snd (PublishPose c inp), Inl e)
         | Inr (c', out) \<Rightarrow>
             (snd (PublishPose c inp), Inr (c'\<lparr>lastUpdateTime := SimTime inp\<rparr>, out)))
      else (snd (PublishPose c inp),
            Inr ((fst (PublishPose c inp))\<lparr>lastUpdateTime := SimTime inp\<rparr>,
                 \<lparr>calls = [], commands = []\<rparr>)))"
  by (simp add: UpdateStates_def Let_def case_prod_beta PublishPose_frame
      Time_Double_eq_0 Time_of_double_Time_Double Time_of_double_0)

lemma UpdateStates_joints:
  assumes "0 < control_NumPublishers inp" and "3 \<le> length (joints c)"
  shows "\<exists>c' out. snd (UpdateStates c inp) = Inr (c', out)
         \<and> calls out =
             (let dt = (if lastUpdateTime c = 0 then 0 else SimTime inp - lastUpdateTime c);
                  pitch = Rot_Euler_X (WorldPose inp) - targetPitch c;
                  roll = Rot_Euler_Y (WorldPose inp) - targetRoll c
              in [(0, targetThrottle c, dt), (1, pitch - roll, dt), (2, pitch + roll, dt)])
         \<and> lastUpdateTime c' = SimTime inp
         \<and> length (joints c') = length (joints c)"
proof -
  let ?c1 = "fst (PublishPose c inp)"
  have "3 \<le> length (joints ?c1)"
    using assms(2) by (simp add: PublishPose_frame)
  from CalculateJoints_ok [OF this]
  obtain c2 out where
    cj: "CalculateJoints ?c1 (WorldPose inp) (targetThrottle c) (targetPitch c) (targetRoll c)
           (if lastUpdateTime c = 0 then 0 else SimTime inp - lastUpdateTime c) = Inr (c2, out)"
    and out: "calls out =
           [(0, targetThrottle c, if lastUpdateTime c = 0 then 0 else SimTime inp - lastUpdateTime c),
            (1, (Rot_Euler_X (WorldPose inp) - targetPitch c) - (Rot_Euler_Y (WorldPose inp) - targetRoll c),
             if lastUpdateTime c = 0 then 0 else SimTime inp - lastUpdateTime c),
            (2, (Rot_Euler_X (WorldPose inp) - targetPitch c) + (Rot_Euler_Y (WorldPose inp) - targetRoll c),
             if lastUpdateTime c = 0 then 0 else SimTime inp - lastUpdateTime c)]"
    and len: "length (joints c2) = length (joints ?c1)"
    by blast
  have "snd (UpdateStates c inp) = Inr (c2\<lparr>lastUpdateTime := SimTime inp\<rparr>, out)"
    using assms(1) by (simp add: UpdateStates_unfold cj)
  then show ?thesis
    using out len by (simp add: Let_def PublishPose_frame)
qed

lemma UpdateStates_no_publishers:
  assumes "control_NumPublishers inp = 0"
  shows "snd (UpdateStates c inp) =
           Inr ((fst (PublishPose c inp))\<lparr>lastUpdateTime := SimTime inp\<rparr>,
                \<lparr>calls = [], commands = []\<rparr>)"
  using assms by (simp add: UpdateStates_unfold)

lemma UpdateStates_error:
  assumes "0 < control_NumPublishers inp" and "length (joints c) < 3"
  shows "snd (UpdateStates c inp) = Inl OutOfRange"
proof -
  have "length (joints (fst (PublishPose c inp))) < 3"
    using assms(2) by (simp add: PublishPose_frame)
  from CalculateJoints_error [OF this] show ?thesis
    using assms(1) by (simp add: UpdateStates_unfold)
qed

subsection \<open>The regulator\<close>

lemma clamp_in_range: "lo \<le> hi \<Longrightarrow> in_range (clamp x lo hi) lo hi"
  by (simp add: clamp_def in_range_def)

lemma compute_limits:
  "integralMin (fst (compute r target measured dt)) = integralMin r"
  "integralMax (fst (compute r target measured dt)) = integralMax r"
  "outputMin (fst (compute r target measured dt)) = outputMin r"
  "outputMax (fst (compute r target measured dt)) = outputMax r"
  by (simp_all add: compute_def Let_def)

lemma compute_integral_in_range:
  assumes "integralMin r \<le> integralMax r"
    and "in_range (accumulatedIntegral r) (integralMin r) (integralMax r)"
  shows "in_range (accumulatedIntegral (fst (compute r target measured dt)))
           (integralMin r) (integralMax r)"
  using assms by (simp add: compute_def Let_def clamp_in_range)

lemma compute_output_in_range:
  assumes "outputMin r \<le> outputMax r"
  shows "in_range (snd (compute r target measured dt)) (outputMin r) (outputMax r)"
  using assms by (simp add: compute_def Let_def clamp_in_range)

lemma compute_all_in_range:
  assumes "integralMin r \<le> integralMax r" and "outputMin r \<le> outputMax r"
    and "in_range (accumulatedIntegral r) (integralMin r) (integralMax r)"
  shows "list_all (\<lambda>x.
            in_range (accumulatedIntegral (fst x)) (integralMin r) (integralMax r)
          \<and> in_range (snd x) (outputMin r) (outputMax r)) (compute_all r xs)"
  using assms
proof (induction xs arbitrary: r)
  case Nil
  then show ?case by simp
next
  case (Cons x xs)
  obtain target measured dt where x: "x = (target, measured, dt)"
    by (cases x) auto
  let ?r = "fst (compute r target measured dt)"
  have step: "in_range (accumulatedIntegral ?r) (integralMin r) (integralMax r)"
    "in_range (snd (compute r target measured dt)) (outputMin r) (outputMax r)"
    using Cons.prems by (simp_all add: compute_integral_in_range compute_output_in_range)
  have "list_all (\<lambda>x.
            in_range (accumulatedIntegral (fst x)) (integralMin ?r) (integralMax ?r)
          \<and> in_range (snd x) (outputMin ?r) (outputMax ?r)) (compute_all ?r xs)"
    using Cons.prems step by (intro Cons.IH) (simp_all add: compute_limits)
  then show ?case
    using step by (simp add: x case_prod_beta compute_limits)
qed

subsection \<open>Configuration\<close>

lemma Load_joints_eq:
  "Load_joints GetJoint es js errs =
     (js @ map (\<lambda>e. fst (Load_joint GetJoint e)) es,
      errs @ concat (map (\<lambda>e. snd (Load_joint GetJoint e)) es))"
  by (induction es arbitrary: js errs) (simp_all add: case_prod_beta)

lemma Load_eq:
  "Load c GetJoint sdf =
     (c\<lparr>poseUpdateRate := (case sdf_poseUpdateRate sdf of None \<Rightarrow> 0 | Some n \<Rightarrow> n),
        joints := joints c @ map (\<lambda>e. fst (Load_joint GetJoint e)) (sdf_joint_control sdf)\<rparr>,
      concat (map (\<lambda>e. snd (Load_joint GetJoint e)) (sdf_joint_control sdf)))"
  by (simp add: Load_def Let_def Load_joints_eq)

lemma Load_joint_fields:
  "jointName (fst (Load_joint GetJoint e)) = sdf_name e"
  "jointType (fst (Load_joint GetJoint e)) = sdf_type e"
  "joint (fst (Load_joint GetJoint e)) = GetJoint (sdf_name e)"
  by (simp_all add: Load_joint_def Let_def SetPIDParams_def JointControl_SetPIDParams_def)

lemma example_controller_length: "length (joints example_controller) = 3"
  by (simp add: example_controller_def Load_eq ZephyrController_new_def example_sdf_def)

lemma Load_frame:
  "lastUpdateTime (fst (Load c GetJoint sdf)) = lastUpdateTime c"
  "lastPosePublishTime (fst (Load c GetJoint sdf)) = lastPosePublishTime c"
  "targetThrottle (fst (Load c GetJoint sdf)) = targetThrottle c"
  "targetPitch (fst (Load c GetJoint sdf)) = targetPitch c"
  "targetRoll (fst (Load c GetJoint sdf)) = targetRoll c"
  "length (joints (fst (Load c GetJoint sdf))) = length (joints c) + length (sdf_joint_control sdf)"
  by (simp_all add: Load_eq)

lemma example_controller_fields:
  "lastUpdateTime example_controller = 0"
  "lastPosePublishTime example_controller = 0"
  "poseUpdateRate example_controller = 100"
  by (simp_all add: example_controller_def Load_eq ZephyrController_new_def example_sdf_def)

lemma JointControl_SetCommand_unresolved:
  "joint jc = None \<Longrightarrow> JointControl_SetCommand jc v dt = (jc, [])"
  by (simp add: JointControl_SetCommand_def)

lemma JointControl_SetCommand_resolved:
  "joint jc = Some h \<Longrightarrow>
   JointControl_SetCommand jc v dt =
     (jc\<lparr>pid := fst (compute (pid jc) v 0 (Time_Double dt))\<rparr>,
      [(h, snd (compute (pid jc) v 0 (Time_Double dt)))])"
  by (simp add: JointControl_SetCommand_def case_prod_beta)

lemma Load_joint_errors:
  "snd (Load_joint GetJoint e) =
     (if GetJoint (sdf_name e) = None
      then [gzerr (''cannot get joint with name:'' @ sdf_name e)] else [])"
  by (simp add: Load_joint_def Let_def)

lemma Load_joint_pid:
  "pid (fst (Load_joint GetJoint e)) = pid (SetPIDParams JointControl_new e)"
  by (simp add: Load_joint_def Let_def SetPIDParams_def JointControl_SetPIDParams_def)

lemma Load_new_joints:
  "joints (fst (Load ZephyrController_new GetJoint sdf)) =
     map (\<lambda>e. fst (Load_joint GetJoint e)) (sdf_joint_control sdf)"
  by (simp add: Load_eq ZephyrController_new_def)

lemma Load_errors:
  "snd (Load c GetJoint sdf) =
     map (\<lambda>e. gzerr (''cannot get joint with name:'' @ sdf_name e))
       (filter (\<lambda>e. GetJoint (sdf_name e) = None) (sdf_joint_control sdf))"
proof -
  have "concat (map (\<lambda>e. snd (Load_joint GetJoint e)) es) =
     map (\<lambda>e. gzerr (''cannot get joint with name:'' @ sdf_name e))
       (filter (\<lambda>e. GetJoint (sdf_name e) = None) es)" for es
    by (induction es) (simp_all add: Load_joint_errors)
  then show ?thesis by (simp add: Load_eq)
qed

subsection \<open>More on the tick\<close>

lemma UpdateStates_published:
  "fst (UpdateStates c inp) = snd (PublishPose c inp)"
  by (simp add: UpdateStates_unfold split: sum.splits)

lemma CalculateJoints_frame:
  assumes "CalculateJoints c pose tT tP tR dt = Inr (c', out)"
  shows "c' = c\<lparr>joints := joints c'\<rparr>"
  using assms by (auto simp: CalculateJoints_def Let_def split: sum.splits)

lemma UpdateStates_lastPosePublishTime:
  assumes "snd (UpdateStates c inp) = Inr (c', out)"
  shows "lastPosePublishTime c' = lastPosePublishTime (fst (PublishPose c inp))"
proof (cases "0 < control_NumPublishers inp")
  case True
  with assms obtain c2 where
    cj: "CalculateJoints (fst (PublishPose c inp)) (WorldPose inp)
           (targetThrottle c) (targetPitch c) (targetRoll c)
           (if lastUpdateTime c = 0 then 0 else SimTime inp - lastUpdateTime c) = Inr (c2, out)"
    and c': "c' = c2\<lparr>lastUpdateTime := SimTime inp\<rparr>"
    by (auto simp: UpdateStates_unfold split: sum.splits)
  from arg_cong [OF CalculateJoints_frame [OF cj], of lastPosePublishTime]
  have "lastPosePublishTime c2 = lastPosePublishTime (fst (PublishPose c inp))"
    by simp
  then show ?thesis by (simp add: c')
next
  case False
  with assms show ?thesis
    by (auto simp: UpdateStates_unfold)
qed

lemma UpdateStates_commands:
  assumes "0 < control_NumPublishers inp" and "3 \<le> length (joints c)"
  shows "\<exists>c' out. snd (UpdateStates c inp) = Inr (c', out)
         \<and> commands out =
             (let dt = (if lastUpdateTime c = 0 then 0 else SimTime inp - lastUpdateTime c);
                  pitch = Rot_Euler_X (WorldPose inp) - targetPitch c;
                  roll = Rot_Euler_Y (WorldPose inp) - targetRoll c
              in snd (JointControl_SetCommand (joints c ! 0) (targetThrottle c) dt)
               @ snd (JointControl_SetCommand (joints c ! 1) (pitch - roll) dt)
               @ snd (JointControl_SetCommand (joints c ! 2) (pitch + roll) dt))"
proof -
  have l: "0 < length (joints c)" "1 < length (joints c)" "2 < length (joints c)"
    using assms(2) by auto
  show ?thesis
    using l assms(1)
    by (simp add: UpdateStates_unfold CalculateJoints_def Let_def SetCommand_at_in_range
        PublishPose_frame)
qed

subsection \<open>The pose interval in double arithmetic\<close>

lemma double_val_of_int: "double_val (double_of_int n) = real_of_int n"
  by (simp add: double_val_def double_of_int_def)

lemma bit_length_bounds:
  "0 < m \<Longrightarrow> 2 ^ (bit_length m - 1) \<le> m \<and> m < 2 ^ bit_length m"
proof (induction m rule: bit_length.induct)
  case (1 m)
  show ?case
  proof (cases "m = 1")
    case True
    then show ?thesis by (simp add: bit_length.simps [of 1] bit_length.simps [of 0])
  next
    case False
    with "1.prems" have pos: "0 < m div 2" and nle: "\<not> m \<le> 0" by simp_all
    from "1.IH" [OF nle pos]
    have lo: "2 ^ (bit_length (m div 2) - 1) \<le> m div 2" and hi: "m div 2 < 2 ^ bit_length (m div 2)"
      by simp_all
    have len: "bit_length m = Suc (bit_length (m div 2))"
      using nle by (simp add: bit_length.simps [of m])
    have "0 < bit_length (m div 2)"
      using pos by (simp add: bit_length.simps [of "m div 2"])
    then have "(2::int) ^ bit_length (m div 2) = 2 * 2 ^ (bit_length (m div 2) - 1)"
      by (cases "bit_length (m div 2)") simp_all
    with lo hi show ?thesis
      unfolding len by (simp, linarith)
  qed
qed

lemma round_nearest_even_error:
  "\<bar>round_nearest_even m k * 2 ^ k - m\<bar> * 2 \<le> 2 ^ k"
proof -
  have m: "m = (m div 2 ^ k) * 2 ^ k + m mod 2 ^ k"
    by (rule div_mult_mod_eq [symmetric])
  have r: "0 \<le> m mod 2 ^ k" "m mod 2 ^ k < 2 ^ k" by simp_all
  define q where "q = m div 2 ^ k"
  define r where "r = m mod 2 ^ k"
  have mm: "m = q * 2 ^ k + r" and r0: "0 \<le> r" and r1: "r < 2 ^ k"
    using m r by (simp_all add: q_def r_def)
  show ?thesis
  proof (cases "2 ^ k < 2 * r \<or> (2 * r = 2 ^ k \<and> odd q)")
    case True
    then have "round_nearest_even m k = q + 1"
      by (simp add: round_nearest_even_def Let_def q_def r_def)
    then have "round_nearest_even m k * 2 ^ k - m = 2 ^ k - r"
      by (simp add: mm algebra_simps)
    with True r1 show ?thesis by auto
  next
    case False
    then have "round_nearest_even m k = q"
      by (simp add: round_nearest_even_def Let_def q_def r_def)
    then have "round_nearest_even m k * 2 ^ k - m = - r"
      by (simp add: mm)
    with False r0 show ?thesis by auto
  qed
qed

lemma round_nearest_even_0: "round_nearest_even m 0 = m"
  by (simp add: round_nearest_even_def)


lemma double_val_powr: "double_val x = real_of_int (fst x) * 2 powr real_of_int (snd x)"
  by (simp add: double_val_def powr_int)

lemma two_powr_nat: "0 \<le> d \<Longrightarrow> (2::real) ^ nat d = 2 powr real_of_int d"
  by (simp add: powr_int)

lemma double_val_mult_exact:
  "double_val (fst x * fst y, snd x + snd y) = double_val x * double_val y"
  by (simp add: double_val_powr powr_add)

lemma double_val_add_exact:
  "double_val (fst x * 2 ^ nat (snd x - min (snd x) (snd y))
               + fst y * 2 ^ nat (snd y - min (snd x) (snd y)), min (snd x) (snd y))
     = double_val x + double_val y"
proof -
  let ?e = "min (snd x) (snd y)"
  have a: "(2::real) ^ nat (snd x - ?e) * 2 powr real_of_int ?e = 2 powr real_of_int (snd x)"
    by (simp add: two_powr_nat powr_add [symmetric])
  have b: "(2::real) ^ nat (snd y - ?e) * 2 powr real_of_int ?e = 2 powr real_of_int (snd y)"
    by (simp add: two_powr_nat powr_add [symmetric])
  have "double_val (fst x * 2 ^ nat (snd x - ?e) + fst y * 2 ^ nat (snd y - ?e), ?e)
      = real_of_int (fst x) * ((2::real) ^ nat (snd x - ?e) * 2 powr real_of_int ?e)
      + real_of_int (fst y) * ((2::real) ^ nat (snd y - ?e) * 2 powr real_of_int ?e)"
    by (simp add: double_val_powr algebra_simps)
  then show ?thesis
    unfolding a b by (simp add: double_val_powr)
qed

lemma double_round_error:
  "\<bar>double_val (double_round x) - double_val x\<bar> \<le> \<bar>double_val x\<bar> / 2 ^ 53"
proof -
  define m where "m = fst x"
  define e where "e = snd x"
  define k where "k = bit_length \<bar>m\<bar> - 53"
  define q where "q = round_nearest_even m k"
  have dr: "double_round x = (q, e + int k)"
    by (simp add: double_round_def Let_def m_def e_def k_def q_def)
  have v: "double_val x = real_of_int m * 2 powr real_of_int e"
    by (simp add: double_val_powr m_def e_def)
  have v': "double_val (double_round x) = real_of_int (q * 2 ^ k) * 2 powr real_of_int e"
    by (simp add: dr double_val_powr powr_add powr_realpow)
  have diff: "double_val (double_round x) - double_val x
      = real_of_int (q * 2 ^ k - m) * 2 powr real_of_int e"
    unfolding v v' by (simp add: algebra_simps)
  have "real_of_int \<bar>q * 2 ^ k - m\<bar> \<le> real_of_int \<bar>m\<bar> / 2 ^ 53"
  proof (cases "k = 0")
    case True
    then show ?thesis by (simp add: q_def round_nearest_even_0)
  next
    case False
    then have n: "bit_length \<bar>m\<bar> = k + 53" by (simp add: k_def)
    then have "\<bar>m\<bar> \<noteq> 0" by (auto simp: bit_length.simps [of 0])
    then have "0 < \<bar>m\<bar>" by simp
    from bit_length_bounds [OF this] have "2 ^ (k + 52) \<le> \<bar>m\<bar>"
      by (simp add: n add.commute)
    then have lo: "(2::real) ^ (k + 52) \<le> real_of_int \<bar>m\<bar>"
      by (metis of_int_le_iff of_int_numeral of_int_power)
    have "\<bar>q * 2 ^ k - m\<bar> * 2 \<le> 2 ^ k"
      unfolding q_def by (rule round_nearest_even_error)
    then have "real_of_int (\<bar>q * 2 ^ k - m\<bar> * 2) \<le> real_of_int (2 ^ k)"
      by (rule of_int_le_iff [THEN iffD2])
    then have "real_of_int \<bar>q * 2 ^ k - m\<bar> * 2 \<le> 2 ^ k"
      by simp
    then have "real_of_int \<bar>q * 2 ^ k - m\<bar> * 2 ^ 53 \<le> 2 ^ (k + 52)"
      by (simp add: power_add)
    with lo have "real_of_int \<bar>q * 2 ^ k - m\<bar> * 2 ^ 53 \<le> real_of_int \<bar>m\<bar>"
      by linarith
    then show ?thesis by (simp add: field_simps)
  qed
  then have "real_of_int \<bar>q * 2 ^ k - m\<bar> * 2 powr real_of_int e
      \<le> real_of_int \<bar>m\<bar> / 2 ^ 53 * 2 powr real_of_int e"
    by (intro mult_right_mono) simp_all
  moreover have "\<bar>double_val (double_round x) - double_val x\<bar>
      = real_of_int \<bar>q * 2 ^ k - m\<bar> * 2 powr real_of_int e"
    by (simp only: diff abs_mult) simp
  moreover have "\<bar>double_val x\<bar> / 2 ^ 53 = real_of_int \<bar>m\<bar> / 2 ^ 53 * 2 powr real_of_int e"
    by (simp only: v abs_mult) simp
  ultimately show ?thesis by simp
qed


lemma double_round_bounds:
  assumes "0 \<le> double_val x"
  shows "double_val x * (1 - 1 / 2 ^ 53) \<le> double_val (double_round x)"
    and "double_val (double_round x) \<le> double_val x * (1 + 1 / 2 ^ 53)"
proof -
  from double_round_error [of x] assms
  have "\<bar>double_val (double_round x) - double_val x\<bar> \<le> double_val x / 2 ^ 53"
    by simp
  then have "double_val x - double_val x / 2 ^ 53 \<le> double_val (double_round x)"
    and "double_val (double_round x) \<le> double_val x + double_val x / 2 ^ 53"
    by linarith+
  then show "double_val x * (1 - 1 / 2 ^ 53) \<le> double_val (double_round x)"
    and "double_val (double_round x) \<le> double_val x * (1 + 1 / 2 ^ 53)"
    by (simp_all add: algebra_simps)
qed

lemma double_mult_bounds:
  assumes "0 \<le> double_val x * double_val y"
  shows "double_val x * double_val y * (1 - 1 / 2 ^ 53) \<le> double_val (double_mult x y)"
    and "double_val (double_mult x y) \<le> double_val x * double_val y * (1 + 1 / 2 ^ 53)"
  using double_round_bounds [of "(fst x * fst y, snd x + snd y)"] assms
  by (simp_all only: double_mult_def double_val_mult_exact)

lemma double_add_bounds:
  assumes "0 \<le> double_val x + double_val y"
  shows "(double_val x + double_val y) * (1 - 1 / 2 ^ 53) \<le> double_val (double_add x y)"
    and "double_val (double_add x y) \<le> (double_val x + double_val y) * (1 + 1 / 2 ^ 53)"
  using double_round_bounds
    [of "(fst x * 2 ^ nat (snd x - min (snd x) (snd y))
          + fst y * 2 ^ nat (snd y - min (snd x) (snd y)), min (snd x) (snd y))"] assms
  by (simp_all only: double_add_def Let_def double_val_add_exact)

lemma double_1e_9_bounds:
  "(1 - 1 / 2 ^ 53) / 1000000000 \<le> double_val double_1e_9"
  "double_val double_1e_9 \<le> (1 + 1 / 2 ^ 53) / 1000000000"
  by (simp_all add: double_1e_9_def double_val_def)


lemma elapsed_ms_bounds:
  assumes "0 \<le> t"
  shows "real_of_int t / 1000000 * (1 - 1 / 2 ^ 50)
           \<le> double_val (double_mult (Time_Double_rounded t) (double_of_int 1000))"
    and "double_val (double_mult (Time_Double_rounded t) (double_of_int 1000))
           \<le> real_of_int t / 1000000 * (1 + 1 / 2 ^ 50)"
proof -
  define lo :: real where "lo = 1 - 1 / 2 ^ 53"
  define hi :: real where "hi = 1 + 1 / 2 ^ 53"
  define sc where "sc = real_of_int (t div 1000000000)"
  define n where "n = real_of_int (t mod 1000000000)"
  define c where "c = double_val double_1e_9"
  define a where "a = double_val (double_mult (double_of_int (Time_nsec t)) double_1e_9)"
  define s where "s = double_val (Time_Double_rounded t)"
  define v where "v = double_val (double_mult (Time_Double_rounded t) (double_of_int 1000))"
  define x where "x = sc + n / 1000000000"
  have lohi: "0 \<le> lo" "lo \<le> 1" "1 \<le> hi" "0 \<le> hi"
    by (simp_all add: lo_def hi_def)
  have sec: "double_val (double_of_int (Time_sec t)) = sc"
    and nsec: "double_val (double_of_int (Time_nsec t)) = n"
    using assms by (simp_all add: sc_def n_def double_val_of_int Time_sec_def Time_nsec_def sgn_if)
  have nn: "0 \<le> sc" "0 \<le> n"
    using assms by (simp_all add: sc_def n_def pos_imp_zdiv_nonneg_iff)
  have t: "real_of_int t = x * 1000000000"
  proof -
    have "real_of_int t = real_of_int (t div 1000000000 * 1000000000 + t mod 1000000000)"
      by (simp only: div_mult_mod_eq)
    also have "\<dots> = sc * 1000000000 + n"
      by (simp only: of_int_add of_int_mult of_int_numeral sc_def n_def)
    finally show ?thesis by (simp add: x_def)
  qed
  have x0: "0 \<le> x" using nn by (simp add: x_def)
  have c: "lo / 1000000000 \<le> c" "c \<le> hi / 1000000000"
    unfolding c_def lo_def hi_def by (rule double_1e_9_bounds)+
  have c0: "0 \<le> c"
    using c(1) lohi(1) by (meson divide_nonneg_pos order_trans zero_less_numeral)
  \<comment> \<open>the product \<open>nsec * 1e-9\<close>\<close>
  have nc: "0 \<le> double_val (double_of_int (Time_nsec t)) * double_val double_1e_9"
    using nn c0 by (simp add: nsec c_def)
  have a: "n * c * lo \<le> a" "a \<le> n * c * hi"
    unfolding a_def c_def lo_def hi_def
    by (rule double_mult_bounds [OF nc, unfolded nsec])+
  have "n * (lo / 1000000000) * lo \<le> n * c * lo"
    using nn c lohi by (intro mult_right_mono mult_left_mono) simp_all
  with a(1) have a_lo: "n / 1000000000 * (lo * lo) \<le> a" by (simp add: algebra_simps)
  have "n * c * hi \<le> n * (hi / 1000000000) * hi"
    using nn c lohi by (intro mult_right_mono mult_left_mono) simp_all
  with a(2) have a_hi: "a \<le> n / 1000000000 * (hi * hi)" by (simp add: algebra_simps)
  have a0: "0 \<le> a"
    using a_lo nn lohi by (meson divide_nonneg_pos mult_nonneg_nonneg order_trans zero_less_numeral)
  \<comment> \<open>the sum \<open>sec + nsec * 1e-9\<close>\<close>
  have sa0: "0 \<le> double_val (double_of_int (Time_sec t))
      + double_val (double_mult (double_of_int (Time_nsec t)) double_1e_9)"
    using nn a0 by (simp add: sec a_def)
  have s: "(sc + a) * lo \<le> s" "s \<le> (sc + a) * hi"
    unfolding s_def a_def lo_def hi_def Time_Double_rounded_def
    by (rule double_add_bounds [OF sa0, unfolded sec])+
  have ll: "lo * lo \<le> 1" "1 \<le> hi * hi" "0 \<le> lo * lo" "0 \<le> hi * hi"
    by (simp_all add: lo_def hi_def)
  have "sc * (lo * lo) \<le> sc * 1" "sc * 1 \<le> sc * (hi * hi)"
    using nn ll by (intro mult_left_mono; simp)+
  then have "sc * (lo * lo) \<le> sc" "sc \<le> sc * (hi * hi)"
    by simp_all
  with a_lo a_hi have sa: "x * (lo * lo) \<le> sc + a" "sc + a \<le> x * (hi * hi)"
    by (simp_all add: x_def algebra_simps)
  have "x * (lo * lo) * lo \<le> (sc + a) * lo" "(sc + a) * hi \<le> x * (hi * hi) * hi"
    using sa lohi by (simp_all add: mult_right_mono)
  with s have s3: "x * (lo * lo * lo) \<le> s" "s \<le> x * (hi * hi * hi)"
    by (simp_all add: mult.assoc)
  have s0: "0 \<le> s"
    using s3(1) x0 lohi by (meson mult_nonneg_nonneg order_trans)
  \<comment> \<open>the product with \<open>1000\<close>\<close>
  have k: "double_val (double_of_int 1000) = 1000"
    by (simp add: double_val_of_int)
  have sk: "0 \<le> double_val (Time_Double_rounded t) * double_val (double_of_int 1000)"
    using s0 by (simp add: s_def k)
  have v: "s * 1000 * lo \<le> v" "v \<le> s * 1000 * hi"
    unfolding s_def v_def lo_def hi_def
    by (rule double_mult_bounds [OF sk, unfolded k])+
  have "x * (lo * lo * lo) * 1000 * lo \<le> s * 1000 * lo" "s * 1000 * hi \<le> x * (hi * hi * hi) * 1000 * hi"
    using s3 lohi by (simp_all add: mult_right_mono)
  with v have v4: "x * 1000 * (lo * lo * lo * lo) \<le> v" "v \<le> x * 1000 * (hi * hi * hi * hi)"
    by (simp_all add: algebra_simps)
  define el :: real where "el = 1 - 1 / 2 ^ 50"
  define eh :: real where "eh = 1 + 1 / 2 ^ 50"
  have num: "el \<le> lo * lo * lo * lo" "hi * hi * hi * hi \<le> eh"
    by (simp_all add: lo_def hi_def el_def eh_def)
  have x1: "0 \<le> x * 1000" using x0 by simp
  have "x * 1000 * el \<le> x * 1000 * (lo * lo * lo * lo)"
    by (rule mult_left_mono [OF num(1) x1])
  then have lower: "x * 1000 * el \<le> v"
    using v4(1) by (rule order_trans)
  have "x * 1000 * (hi * hi * hi * hi) \<le> x * 1000 * eh"
    by (rule mult_left_mono [OF num(2) x1])
  with v4(2) have upper: "v \<le> x * 1000 * eh"
    by (rule order_trans)
  have tx: "real_of_int t / 1000000 = x * 1000"
    by (simp add: t)
  show "real_of_int t / 1000000 * (1 - 1 / 2 ^ 50)
           \<le> double_val (double_mult (Time_Double_rounded t) (double_of_int 1000))"
    using lower unfolding tx el_def v_def by assumption
  show "double_val (double_mult (Time_Double_rounded t) (double_of_int 1000))
           \<le> real_of_int t / 1000000 * (1 + 1 / 2 ^ 50)"
    using upper unfolding tx eh_def v_def by assumption
qed


lemma elapsed_ms_threshold:
  assumes "0 \<le> t" and "t < 2 ^ 49"
  shows "R * 1000000 < t \<Longrightarrow>
           real_of_int R < double_val (double_mult (Time_Double_rounded t) (double_of_int 1000))"
    and "t < R * 1000000 \<Longrightarrow>
           \<not> real_of_int R < double_val (double_mult (Time_Double_rounded t) (double_of_int 1000))"
proof -
  define v where "v = double_val (double_mult (Time_Double_rounded t) (double_of_int 1000))"
  define T where "T = real_of_int t"
  have b: "T / 1000000 * (1 - 1 / 2 ^ 50) \<le> v" "v \<le> T / 1000000 * (1 + 1 / 2 ^ 50)"
    unfolding v_def T_def by (rule elapsed_ms_bounds [OF assms(1)])+
  have T: "0 \<le> T" "T < 2 ^ 49"
    using assms by (simp_all add: T_def)
  have small: "T / 2 ^ 50 < 1"
    using T by simp
  have lo: "T - 1 < v * 1000000"
  proof -
    have "T / 1000000 * (1 - 1 / 2 ^ 50) * 1000000 \<le> v * 1000000"
      using b(1) by (rule mult_right_mono) simp
    moreover have "T / 1000000 * (1 - 1 / 2 ^ 50) * 1000000 = T - T / 2 ^ 50"
      by (simp add: algebra_simps)
    ultimately show ?thesis using small by linarith
  qed
  have hi: "v * 1000000 < T + 1"
  proof -
    have "v * 1000000 \<le> T / 1000000 * (1 + 1 / 2 ^ 50) * 1000000"
      using b(2) by (rule mult_right_mono) simp
    moreover have "T / 1000000 * (1 + 1 / 2 ^ 50) * 1000000 = T + T / 2 ^ 50"
      by (simp add: algebra_simps)
    ultimately show ?thesis using small by linarith
  qed
  show "real_of_int R < double_val (double_mult (Time_Double_rounded t) (double_of_int 1000))"
    if "R * 1000000 < t"
  proof -
    from that have "R * 1000000 + 1 \<le> t" by simp
    then have "real_of_int (R * 1000000 + 1) \<le> real_of_int t"
      by (rule of_int_le_iff [THEN iffD2])
    then have "real_of_int R * 1000000 \<le> T - 1"
      by (simp add: T_def)
    with lo have "real_of_int R * 1000000 < v * 1000000" by linarith
    then show ?thesis by (simp add: v_def)
  qed
  show "\<not> real_of_int R < double_val (double_mult (Time_Double_rounded t) (double_of_int 1000))"
    if "t < R * 1000000"
  proof -
    from that have "t + 1 \<le> R * 1000000" by simp
    then have "real_of_int (t + 1) \<le> real_of_int (R * 1000000)"
      by (rule of_int_le_iff [THEN iffD2])
    then have "T + 1 \<le> real_of_int R * 1000000"
      by (simp add: T_def)
    with hi have "v * 1000000 < real_of_int R * 1000000" by linarith
    then show ?thesis by (simp add: v_def)
  qed
qed


lemma example_controller_9_fields:
  "lastPosePublishTime example_controller_9 = 0"
  "poseUpdateRate example_controller_9 = 9"
  by (simp_all add: example_controller_9_def Load_eq ZephyrController_new_def)

lemma elapsed_9ms:
  "double_val (double_mult (Time_Double_rounded 9000000) (double_of_int 1000)) = 5066549580791809 / 2 ^ 49"
proof -
  have "double_mult (Time_Double_rounded 9000000) (double_of_int 1000) = (5066549580791809, - 49)"
    by code_simp
  then show ?thesis by (simp add: double_val_def)
qed

lemma elapsed_100ms:
  "double_val (double_mult (Time_Double_rounded 100000000) (double_of_int 1000)) = 7036874417766400 / 2 ^ 46"
proof -
  have "double_mult (Time_Double_rounded 100000000) (double_of_int 1000) = (7036874417766400, - 46)"
    by code_simp
  then show ?thesis by (simp add: double_val_def)
qed

section \<open>The claims\<close>

text \<open>
  C1. On every tick that issues joint commands, the three joints are commanded in the
  fixed order of their slots 0, 1, 2 with the throttle setpoint itself,
  \<open>pitchError - rollError\<close> and \<open>pitchError + rollError\<close>, where
  \<open>pitchError = currentPitch - targetPitch\<close> and
  \<open>rollError = currentRoll - targetRoll\<close>; the current pitch and roll are the X and Y
  components of the pose's Euler angles, as the code reads them. The witness is the
  spec's concrete case: throttle 0.5, target pitch 0.1, target roll 0, current pitch 0.3,
  current roll 0 give 0.5, 0.2, 0.2.
\<close>

theorem mixing_law:
  assumes "0 < control_NumPublishers inp" and "3 \<le> length (joints c)"
  shows "\<exists>c' out. snd (UpdateStates c inp) = Inr (c', out) \<and>
           map (\<lambda>(k, v, dt). (k, v)) (calls out) =
             (let pitchError = Rot_Euler_X (WorldPose inp) - targetPitch c;
                  rollError = Rot_Euler_Y (WorldPose inp) - targetRoll c
              in [(0, targetThrottle c),
                  (1, pitchError - rollError),
                  (2, pitchError + rollError)])"
proof -
  from UpdateStates_joints [OF assms] obtain c' out where
    "snd (UpdateStates c inp) = Inr (c', out)"
    and "calls out =
          (let dt = (if lastUpdateTime c = 0 then 0 else SimTime inp - lastUpdateTime c);
               pitch = Rot_Euler_X (WorldPose inp) - targetPitch c;
               roll = Rot_Euler_Y (WorldPose inp) - targetRoll c
           in [(0, targetThrottle c, dt), (1, pitch - roll, dt), (2, pitch + roll, dt)])"
    by blast
  then show ?thesis by (simp add: Let_def)
qed

theorem mixing_law_witness:
  "0 < control_NumPublishers example_tick
   \<and> 3 \<le> length (joints (SetControl example_controller example_twist))
   \<and> (\<exists>c' out. snd (UpdateStates (SetControl example_controller example_twist) example_tick)
                   = Inr (c', out)
        \<and> map (\<lambda>(k, v, dt). (k, v)) (calls out) = [(0, 1 / 2), (1, 2 / 10), (2, 2 / 10)])"
  using mixing_law [of example_tick "SetControl example_controller example_twist"]
  by (simp add: example_controller_length example_tick_def example_pose_def
      SetControl_def example_twist_def Let_def)

text \<open>
  C2. Over any sequence of calls to the compute step, whatever the targets, measurements
  and time steps, the accumulated integral stays in \<open>[integralMin, integralMax]\<close> and
  every output lies in \<open>[outputMin, outputMax]\<close>; the limits themselves never change.
  The intervals must not be empty (\<open>integralMin \<le> integralMax\<close>,
  \<open>outputMin \<le> outputMax\<close>) and the integral must start inside its interval: a call
  with \<open>dt = 0\<close> leaves the integral as it is.
\<close>

theorem integral_and_output_stay_in_range:
  assumes "integralMin r \<le> integralMax r" and "outputMin r \<le> outputMax r"
    and "in_range (accumulatedIntegral r) (integralMin r) (integralMax r)"
  shows "list_all (\<lambda>(r', out).
            in_range (accumulatedIntegral r') (integralMin r') (integralMax r')
          \<and> in_range out (outputMin r') (outputMax r')
          \<and> integralMin r' = integralMin r \<and> integralMax r' = integralMax r
          \<and> outputMin r' = outputMin r \<and> outputMax r' = outputMax r)
         (compute_all r xs)"
proof -
  have "list_all (\<lambda>x. integralMin (fst x) = integralMin r \<and> integralMax (fst x) = integralMax r
          \<and> outputMin (fst x) = outputMin r \<and> outputMax (fst x) = outputMax r)
         (compute_all r xs)"
  proof (induction xs arbitrary: r)
    case Nil
    then show ?case by simp
  next
    case (Cons x xs)
    obtain target measured dt where x: "x = (target, measured, dt)"
      by (cases x) auto
    from Cons.IH [of "fst (compute r target measured dt)"] show ?case
      by (simp add: x case_prod_beta compute_limits)
  qed
  with compute_all_in_range [OF assms, of xs] show ?thesis
    by (simp add: list_all_iff case_prod_beta)
qed

theorem integral_and_output_stay_in_range_witness:
  "integralMin example_regulator \<le> integralMax example_regulator
   \<and> outputMin example_regulator \<le> outputMax example_regulator
   \<and> in_range (accumulatedIntegral example_regulator)
        (integralMin example_regulator) (integralMax example_regulator)
   \<and> list_all (\<lambda>(r', out).
            in_range (accumulatedIntegral r') (integralMin r') (integralMax r')
          \<and> in_range out (outputMin r') (outputMax r')
          \<and> integralMin r' = integralMin example_regulator
          \<and> integralMax r' = integralMax example_regulator
          \<and> outputMin r' = outputMin example_regulator
          \<and> outputMax r' = outputMax example_regulator)
         (compute_all example_regulator [(1000, 0, 1), (1000, 0, 0), (- 5000, 0, 1 / 2)])
   \<and> map snd (compute_all example_regulator [(1000, 0, 1), (1000, 0, 0), (- 5000, 0, 1 / 2)])
       = [2, 2, - 2]
   \<and> map (\<lambda>x. accumulatedIntegral (fst x))
        (compute_all example_regulator [(1000, 0, 1), (1000, 0, 0), (- 5000, 0, 1 / 2)])
       = [1, 1, - 1]"
  using integral_and_output_stay_in_range
    [of example_regulator "[(1000, 0, 1), (1000, 0, 0), (- 5000, 0, 1 / 2)]"]
  by (simp add: example_regulator_def in_range_def compute_def clamp_def Let_def)

text \<open>
  C3. A call with \<open>dt = 0\<close> returns \<open>clamp(p * error, outputMin, outputMax)\<close> with
  \<open>error = target - measured\<close>: neither the integral nor the derivative contributes,
  and the accumulated integral is left as it was.
\<close>

theorem zero_dt_is_proportional:
  "compute r target measured 0 =
     (r\<lparr>previousError := target - measured\<rparr>,
      clamp (pGain r * (target - measured)) (outputMin r) (outputMax r))
   \<and> accumulatedIntegral (fst (compute r target measured 0)) = accumulatedIntegral r"
  by (simp add: compute_def Let_def)

text \<open>
  C4. A controller that was constructed and loaded still has the sentinel \<open>0\<close> in
  \<open>lastUpdateTime\<close>. On a tick that finds the sentinel and issues joint commands, all
  three \<^verbatim>\<open>SetCommand\<close> calls get \<open>dt = 0\<close>, whatever the simulation time is, and
  \<open>lastUpdateTime\<close> becomes the simulation time of the tick.
\<close>

theorem first_tick_dt_zero:
  assumes "lastUpdateTime c = 0"
    and "0 < control_NumPublishers inp" and "3 \<le> length (joints c)"
  shows "lastUpdateTime (fst (Load ZephyrController_new GetJoint sdf)) = 0
         \<and> (\<exists>c' out. snd (UpdateStates c inp) = Inr (c', out)
               \<and> map (\<lambda>(k, v, dt). dt) (calls out) = [0, 0, 0]
               \<and> lastUpdateTime c' = SimTime inp)"
proof -
  from UpdateStates_joints [OF assms(2,3)] obtain c' out where
    "snd (UpdateStates c inp) = Inr (c', out)"
    and "calls out =
          (let dt = (if lastUpdateTime c = 0 then 0 else SimTime inp - lastUpdateTime c);
               pitch = Rot_Euler_X (WorldPose inp) - targetPitch c;
               roll = Rot_Euler_Y (WorldPose inp) - targetRoll c
           in [(0, targetThrottle c, dt), (1, pitch - roll, dt), (2, pitch + roll, dt)])"
    and "lastUpdateTime c' = SimTime inp"
    by blast
  then show ?thesis
    using assms(1) by (simp add: Let_def Load_frame ZephyrController_new_def)
qed

theorem first_tick_dt_zero_witness:
  "lastUpdateTime example_controller = 0
   \<and> 0 < control_NumPublishers example_tick
   \<and> 3 \<le> length (joints example_controller)
   \<and> SimTime example_tick = 5000000000
   \<and> (\<exists>c' out. snd (UpdateStates example_controller example_tick) = Inr (c', out)
         \<and> map (\<lambda>(k, v, dt). dt) (calls out) = [0, 0, 0]
         \<and> lastUpdateTime c' = 5000000000)"
  using first_tick_dt_zero [of example_controller example_tick]
  by (simp add: example_controller_fields example_controller_length example_tick_def)

text \<open>
  C5, as the code has it. A tick publishes a pose exactly when the pose topic has a
  subscriber and \<open>poseUpdateRate\<close> is less than the time since
  \<open>lastPosePublishTime\<close> in milliseconds as the code computes it, the double
  \<^verbatim>\<open>((double)sec + (double)nsec * 1e-9) * 1000\<close>. For an elapsed time from 0 up to
  \<open>2 ^ 49\<close> nanoseconds this double is so close to the exact value that, with a
  subscriber, a pose is published whenever the elapsed time is greater than the
  interval and never when it is less; only when the two are equal does the rounding
  decide. A tick publishes at most one message, the current world pose, and then
  \<open>lastPosePublishTime\<close> is the simulation time of the tick, otherwise it is unchanged.
\<close>

theorem pose_emission:
  "fst (UpdateStates c inp) =
     (if 0 < pose_NumSubscribers inp
         \<and> real_of_int (poseUpdateRate c)
             < double_val (double_mult (Time_Double_rounded (SimTime inp - lastPosePublishTime c))
                             (double_of_int 1000))
      then [Pose_msg_of (WorldPose inp)] else [])
   \<and> (0 \<le> SimTime inp - lastPosePublishTime c \<and> SimTime inp - lastPosePublishTime c < 2 ^ 49 \<longrightarrow>
        (0 < pose_NumSubscribers inp
           \<and> poseUpdateRate c * 1000000 < SimTime inp - lastPosePublishTime c \<longrightarrow>
         fst (UpdateStates c inp) = [Pose_msg_of (WorldPose inp)])
      \<and> (SimTime inp - lastPosePublishTime c < poseUpdateRate c * 1000000 \<longrightarrow>
         fst (UpdateStates c inp) = []))
   \<and> (pose_NumSubscribers inp = 0 \<longrightarrow> fst (UpdateStates c inp) = [])
   \<and> length (fst (UpdateStates c inp)) \<le> 1
   \<and> (\<forall>c' out. snd (UpdateStates c inp) = Inr (c', out) \<longrightarrow>
         lastPosePublishTime c' =
           (if fst (UpdateStates c inp) = [] then lastPosePublishTime c else SimTime inp))"
proof -
  let ?t = "SimTime inp - lastPosePublishTime c"
  have msgs: "snd (PublishPose c inp) =
     (if 0 < pose_NumSubscribers inp
         \<and> real_of_int (poseUpdateRate c)
             < double_val (double_mult (Time_Double_rounded ?t) (double_of_int 1000))
      then [Pose_msg_of (WorldPose inp)] else [])"
    by (simp add: PublishPose_def Let_def double_val_of_int)
  have t1: "lastPosePublishTime (fst (PublishPose c inp)) =
           (if snd (PublishPose c inp) = [] then lastPosePublishTime c else SimTime inp)"
    by (simp add: PublishPose_def Let_def)
  have exact: "0 \<le> ?t \<and> ?t < 2 ^ 49 \<longrightarrow>
        (0 < pose_NumSubscribers inp \<and> poseUpdateRate c * 1000000 < ?t \<longrightarrow>
         snd (PublishPose c inp) = [Pose_msg_of (WorldPose inp)])
      \<and> (?t < poseUpdateRate c * 1000000 \<longrightarrow> snd (PublishPose c inp) = [])"
  proof (intro impI conjI)
    assume r: "0 \<le> ?t \<and> ?t < 2 ^ 49"
      and h: "0 < pose_NumSubscribers inp \<and> poseUpdateRate c * 1000000 < ?t"
    from r h elapsed_ms_threshold(1) [of ?t "poseUpdateRate c"]
    show "snd (PublishPose c inp) = [Pose_msg_of (WorldPose inp)]"
      by (simp add: msgs)
  next
    assume r: "0 \<le> ?t \<and> ?t < 2 ^ 49" and h: "?t < poseUpdateRate c * 1000000"
    from r h elapsed_ms_threshold(2) [of ?t "poseUpdateRate c"]
    show "snd (PublishPose c inp) = []"
      by (simp add: msgs)
  qed
  have none: "pose_NumSubscribers inp = 0 \<longrightarrow> snd (PublishPose c inp) = []"
    by (simp add: msgs)
  have len: "length (snd (PublishPose c inp)) \<le> 1"
    by (simp add: msgs)
  have upd: "\<forall>c' out. snd (UpdateStates c inp) = Inr (c', out) \<longrightarrow>
         lastPosePublishTime c' =
           (if snd (PublishPose c inp) = [] then lastPosePublishTime c else SimTime inp)"
    by (simp add: UpdateStates_lastPosePublishTime t1)
  show ?thesis
    unfolding UpdateStates_published using msgs exact none len upd by blast
qed

theorem pose_emission_witness:
  "snd (UpdateStates example_controller (example_tick\<lparr>control_NumPublishers := 0\<rparr>))
     = Inr (example_controller\<lparr>lastPosePublishTime := 5000000000, lastUpdateTime := 5000000000\<rparr>,
            \<lparr>calls = [], commands = []\<rparr>)
   \<and> 0 < pose_NumSubscribers example_tick
   \<and> poseUpdateRate example_controller = 100
   \<and> fst (UpdateStates example_controller (example_tick\<lparr>control_NumPublishers := 0\<rparr>))
     = [Pose_msg_of example_pose]
   \<and> fst (UpdateStates
         (example_controller\<lparr>lastPosePublishTime := 5000000000, lastUpdateTime := 5000000000\<rparr>)
         (example_tick\<lparr>control_NumPublishers := 0, SimTime := 5010000000\<rparr>)) = []
   \<and> fst (UpdateStates
         (example_controller\<lparr>lastPosePublishTime := 5000000000, lastUpdateTime := 5000000000\<rparr>)
         (example_tick\<lparr>control_NumPublishers := 0, SimTime := 5100000000\<rparr>)) = []
   \<and> fst (UpdateStates
         (example_controller\<lparr>lastPosePublishTime := 5000000000, lastUpdateTime := 5000000000\<rparr>)
         (example_tick\<lparr>control_NumPublishers := 0, SimTime := 5110000000\<rparr>))
     = [Pose_msg_of example_pose]
   \<and> fst (UpdateStates example_controller
         (example_tick\<lparr>control_NumPublishers := 0, pose_NumSubscribers := 0\<rparr>)) = []"
proof -
  let ?c1 = "example_controller\<lparr>lastPosePublishTime := 5000000000, lastUpdateTime := 5000000000\<rparr>"
  have e0: "fst (UpdateStates example_controller (example_tick\<lparr>control_NumPublishers := 0\<rparr>))
     = [Pose_msg_of example_pose]"
    using pose_emission [of example_controller "example_tick\<lparr>control_NumPublishers := 0\<rparr>",
        THEN conjunct2, THEN conjunct1]
    by (simp add: example_controller_fields example_tick_def)
  have r: "snd (UpdateStates example_controller (example_tick\<lparr>control_NumPublishers := 0\<rparr>))
     = Inr (?c1, \<lparr>calls = [], commands = []\<rparr>)"
    using e0 by (simp add: UpdateStates_no_publishers UpdateStates_published PublishPose_def
        Let_def example_tick_def split: if_splits)
  have e1: "fst (UpdateStates ?c1
         (example_tick\<lparr>control_NumPublishers := 0, SimTime := 5010000000\<rparr>)) = []"
    using pose_emission [of ?c1 "example_tick\<lparr>control_NumPublishers := 0, SimTime := 5010000000\<rparr>",
        THEN conjunct2, THEN conjunct1]
    by (simp add: example_controller_fields example_tick_def)
  have e2: "fst (UpdateStates ?c1
         (example_tick\<lparr>control_NumPublishers := 0, SimTime := 5100000000\<rparr>)) = []"
    using pose_emission [of ?c1 "example_tick\<lparr>control_NumPublishers := 0, SimTime := 5100000000\<rparr>",
        THEN conjunct1]
    by (simp add: example_controller_fields example_tick_def elapsed_100ms)
  have e3: "fst (UpdateStates ?c1
         (example_tick\<lparr>control_NumPublishers := 0, SimTime := 5110000000\<rparr>))
     = [Pose_msg_of example_pose]"
    using pose_emission [of ?c1 "example_tick\<lparr>control_NumPublishers := 0, SimTime := 5110000000\<rparr>",
        THEN conjunct2, THEN conjunct1]
    by (simp add: example_controller_fields example_tick_def)
  have e4: "fst (UpdateStates example_controller
         (example_tick\<lparr>control_NumPublishers := 0, pose_NumSubscribers := 0\<rparr>)) = []"
    using pose_emission [of example_controller
        "example_tick\<lparr>control_NumPublishers := 0, pose_NumSubscribers := 0\<rparr>",
        THEN conjunct2, THEN conjunct2, THEN conjunct1]
    by (simp add: example_tick_def)
  have s: "0 < pose_NumSubscribers example_tick" "poseUpdateRate example_controller = 100"
    by (simp_all add: example_tick_def example_controller_fields)
  show ?thesis
    using r s e0 e1 e2 e3 e4 by blast
qed

text \<open>
  C5 as stated, with the exact elapsed time in place of the double, does not hold: 9 ms after
  the last pose, with an interval of 9 ms, the double is \<open>9.000000000000002\<close> and the
  pose is published although the interval has not been exceeded.
\<close>

theorem pose_emission_counterexample:
  "fst (UpdateStates example_controller_9 (example_tick\<lparr>SimTime := 9000000\<rparr>))
     = [Pose_msg_of example_pose]
   \<and> 0 < pose_NumSubscribers (example_tick\<lparr>SimTime := 9000000\<rparr>)
   \<and> real_of_int (SimTime (example_tick\<lparr>SimTime := 9000000\<rparr>)
                    - lastPosePublishTime example_controller_9) / 1000000
       = real_of_int (poseUpdateRate example_controller_9)
   \<and> (fst (UpdateStates example_controller_9 (example_tick\<lparr>SimTime := 9000000\<rparr>)) \<noteq> [])
       \<noteq> (0 < pose_NumSubscribers (example_tick\<lparr>SimTime := 9000000\<rparr>)
            \<and> real_of_int (poseUpdateRate example_controller_9)
                < real_of_int (SimTime (example_tick\<lparr>SimTime := 9000000\<rparr>)
                    - lastPosePublishTime example_controller_9) / 1000000)"
  by (simp add: UpdateStates_published PublishPose_def Let_def example_controller_9_fields
      example_tick_def elapsed_9ms double_val_of_int)

text \<open>
  C6. Every tick that returns sets \<open>lastUpdateTime\<close> to its simulation time, and a
  tick returns whenever the joint-command step is skipped (no publisher on the command
  topic) or there are at least three bindings.
\<close>

theorem lastUpdateTime_updated_on_every_tick:
  assumes "control_NumPublishers inp = 0 \<or> 3 \<le> length (joints c)"
  shows "\<exists>c' out. snd (UpdateStates c inp) = Inr (c', out) \<and> lastUpdateTime c' = SimTime inp"
proof (cases "control_NumPublishers inp = 0")
  case True
  then show ?thesis by (simp add: UpdateStates_no_publishers)
next
  case False
  with assms have "0 < control_NumPublishers inp" and "3 \<le> length (joints c)"
    by simp_all
  from UpdateStates_joints [OF this] show ?thesis by blast
qed

theorem lastUpdateTime_updated_on_every_tick_witness:
  "control_NumPublishers (example_tick\<lparr>control_NumPublishers := 0\<rparr>) = 0
   \<and> (\<exists>c' out. snd (UpdateStates ZephyrController_new (example_tick\<lparr>control_NumPublishers := 0\<rparr>))
                   = Inr (c', out)
         \<and> calls out = []
         \<and> lastUpdateTime c' = 5000000000)"
  using lastUpdateTime_updated_on_every_tick
    [of "example_tick\<lparr>control_NumPublishers := 0\<rparr>" ZephyrController_new]
  by (simp add: UpdateStates_no_publishers example_tick_def)

text \<open>
  C7. \<^verbatim>\<open>Load\<close> with a descriptor whose joint name the host cannot resolve: the
  error is logged and loading goes on; the joint list has one binding per descriptor, in
  the descriptors' order, each with the name, type, handle and regulator of its own
  descriptor, so no other binding moves to another slot; a command to the unresolved
  binding reaches no actuator and changes nothing, and a command to a resolved binding
  reaches its actuator with the regulator's output.
\<close>

theorem unresolved_joint_keeps_its_slot:
  assumes "k < length (sdf_joint_control sdf)"
    and "GetJoint (sdf_name (sdf_joint_control sdf ! k)) = None"
  shows "gzerr (''cannot get joint with name:'' @ sdf_name (sdf_joint_control sdf ! k))
           \<in> set (snd (Load ZephyrController_new GetJoint sdf))
       \<and> joints (fst (Load ZephyrController_new GetJoint sdf)) =
           map (\<lambda>e. fst (Load_joint GetJoint e)) (sdf_joint_control sdf)
       \<and> map jointName (joints (fst (Load ZephyrController_new GetJoint sdf))) =
           map sdf_name (sdf_joint_control sdf)
       \<and> map jointType (joints (fst (Load ZephyrController_new GetJoint sdf))) =
           map sdf_type (sdf_joint_control sdf)
       \<and> map joint (joints (fst (Load ZephyrController_new GetJoint sdf))) =
           map (\<lambda>e. GetJoint (sdf_name e)) (sdf_joint_control sdf)
       \<and> map pid (joints (fst (Load ZephyrController_new GetJoint sdf))) =
           map (\<lambda>e. pid (SetPIDParams JointControl_new e)) (sdf_joint_control sdf)
       \<and> JointControl_SetCommand (joints (fst (Load ZephyrController_new GetJoint sdf)) ! k) v dt =
           (joints (fst (Load ZephyrController_new GetJoint sdf)) ! k, [])
       \<and> (\<forall>j h. j < length (sdf_joint_control sdf)
                \<and> GetJoint (sdf_name (sdf_joint_control sdf ! j)) = Some h \<longrightarrow>
             snd (JointControl_SetCommand
                    (joints (fst (Load ZephyrController_new GetJoint sdf)) ! j) v dt) =
               [(h, snd (compute (pid (SetPIDParams JointControl_new (sdf_joint_control sdf ! j)))
                           v 0 (Time_Double dt)))])"
proof -
  let ?ds = "sdf_joint_control sdf"
  let ?c = "fst (Load ZephyrController_new GetJoint sdf)"
  have js: "joints ?c = map (\<lambda>e. fst (Load_joint GetJoint e)) ?ds"
    by (rule Load_new_joints)
  have err: "gzerr (''cannot get joint with name:'' @ sdf_name (?ds ! k))
           \<in> set (snd (Load ZephyrController_new GetJoint sdf))"
    using assms by (auto simp: Load_errors)
  have "joint (joints ?c ! k) = None"
    using assms by (simp add: js Load_joint_fields)
  then have inert: "JointControl_SetCommand (joints ?c ! k) v dt = (joints ?c ! k, [])"
    by (rule JointControl_SetCommand_unresolved)
  have others: "snd (JointControl_SetCommand (joints ?c ! j) v dt) =
               [(h, snd (compute (pid (SetPIDParams JointControl_new (?ds ! j)))
                           v 0 (Time_Double dt)))]"
    if "j < length ?ds" and "GetJoint (sdf_name (?ds ! j)) = Some h" for j h
  proof -
    have "joint (joints ?c ! j) = Some h"
      using that by (simp add: js Load_joint_fields)
    from JointControl_SetCommand_resolved [OF this] show ?thesis
      using that(1) by (simp add: js Load_joint_pid)
  qed
  show ?thesis
    using err inert others
    by (simp add: js Load_joint_fields Load_joint_pid comp_def)
qed

theorem unresolved_joint_keeps_its_slot_witness:
  "1 < length (sdf_joint_control example_sdf)
   \<and> (example_GetJoint(''flap_left_joint'' := None))
        (sdf_name (sdf_joint_control example_sdf ! 1)) = None
   \<and> snd (Load ZephyrController_new (example_GetJoint(''flap_left_joint'' := None)) example_sdf)
       = [gzerr ''cannot get joint with name:flap_left_joint'']
   \<and> map jointName
        (joints (fst (Load ZephyrController_new (example_GetJoint(''flap_left_joint'' := None))
                        example_sdf)))
       = [''propeller_joint'', ''flap_left_joint'', ''flap_right_joint'']
   \<and> map joint
        (joints (fst (Load ZephyrController_new (example_GetJoint(''flap_left_joint'' := None))
                        example_sdf)))
       = [Some 0, None, Some 2]
   \<and> (\<exists>c' out.
         snd (UpdateStates
               (SetControl
                  (fst (Load ZephyrController_new (example_GetJoint(''flap_left_joint'' := None))
                          example_sdf))
                  example_twist)
               example_tick) = Inr (c', out)
         \<and> commands out = [(0, 1), (2, 0)])"
proof -
  let ?G = "example_GetJoint(''flap_left_joint'' := None)"
  let ?c = "fst (Load ZephyrController_new ?G example_sdf)"
  have h1: "1 < length (sdf_joint_control example_sdf)"
    by (simp add: example_sdf_def)
  have h2: "?G (sdf_name (sdf_joint_control example_sdf ! 1)) = None"
    by (simp add: example_sdf_def)
  note inst = unresolved_joint_keeps_its_slot [of 1 example_sdf ?G 0 0, OF h1 h2]
  have errs: "snd (Load ZephyrController_new ?G example_sdf)
       = [gzerr ''cannot get joint with name:flap_left_joint'']"
    by (simp add: Load_errors example_sdf_def example_GetJoint_def)
  have names: "map jointName (joints ?c)
       = [''propeller_joint'', ''flap_left_joint'', ''flap_right_joint'']"
    using inst [THEN conjunct2, THEN conjunct2, THEN conjunct1]
    by (simp add: example_sdf_def)
  have handles: "map joint (joints ?c) = [Some 0, None, Some 2]"
    using inst [THEN conjunct2, THEN conjunct2, THEN conjunct2, THEN conjunct2, THEN conjunct1]
    by (simp add: example_sdf_def example_GetJoint_def)
  have len: "length (joints ?c) = 3"
    using names by (metis length_map length_Cons list.size(3) numeral_3_eq_3)
  have j0: "joint (joints ?c ! 0) = Some 0" "joint (joints ?c ! Suc 0) = None"
    "joint (joints ?c ! 2) = Some 2"
    using handles len by (simp_all add: list_eq_iff_nth_eq nth_Cons')
  have sc: "joints (SetControl ?c example_twist) = joints ?c"
    "lastUpdateTime (SetControl ?c example_twist) = 0"
    "targetThrottle (SetControl ?c example_twist) = 1 / 2"
    "targetPitch (SetControl ?c example_twist) = 1 / 10"
    "targetRoll (SetControl ?c example_twist) = 0"
    by (simp_all add: SetControl_def Load_frame ZephyrController_new_def example_twist_def)
  have c0: "snd (JointControl_SetCommand (joints ?c ! 0) (1 / 2) 0) = [(0, 1)]"
    using unresolved_joint_keeps_its_slot [of 1 example_sdf ?G "1 / 2" 0, OF h1 h2,
        THEN conjunct2, THEN conjunct2, THEN conjunct2, THEN conjunct2, THEN conjunct2,
        THEN conjunct2, THEN conjunct2, rule_format, of 0 0]
    by (simp add: example_sdf_def example_GetJoint_def
        SetPIDParams_def HasElement_def Get_double_def JointControl_SetPIDParams_def
        JointControl_new_def PIDRegulator_default_def compute_def clamp_def Time_Double_def)
  have c1: "snd (JointControl_SetCommand (joints ?c ! Suc 0) v 0) = []" for v
    unfolding JointControl_SetCommand_unresolved [OF j0(2)] by simp
  have c2: "snd (JointControl_SetCommand (joints ?c ! 2) (1 / 5) 0) = [(2, 0)]"
    using unresolved_joint_keeps_its_slot [of 1 example_sdf ?G "1 / 5" 0, OF h1 h2,
        THEN conjunct2, THEN conjunct2, THEN conjunct2, THEN conjunct2, THEN conjunct2,
        THEN conjunct2, THEN conjunct2, rule_format, of 2 2]
    by (simp add: example_sdf_def example_GetJoint_def
        SetPIDParams_def HasElement_def JointControl_new_def PIDRegulator_default_def
        compute_def clamp_def Time_Double_def)
  have tick: "\<exists>c' out. snd (UpdateStates (SetControl ?c example_twist) example_tick) = Inr (c', out)
         \<and> commands out = [(0, 1), (2, 0)]"
    using UpdateStates_commands [of example_tick "SetControl ?c example_twist"]
    by (simp add: sc len c0 c1 c2 example_tick_def example_pose_def Let_def)
  show ?thesis
    using h1 h2 errs names handles tick by blast
qed

text \<open>
  C8. For a descriptor without a \<^verbatim>\<open>p\<close> element, \<^verbatim>\<open>SetPIDParams\<close> leaves the
  binding as it is: the regulator keeps its default, with zero gains, and its output is
  zero for every input; nothing is logged on account of the missing gains. With a
  \<^verbatim>\<open>p\<close> element the gains and clamps are those of the descriptor.
\<close>

theorem no_gain_block_keeps_default_regulator:
  assumes "\<not> HasElement e ''p''"
  shows "SetPIDParams jc e = jc
       \<and> pid (fst (Load_joint GetJoint e)) = PIDRegulator_default
       \<and> pGain (pid (fst (Load_joint GetJoint e))) = 0
       \<and> iGain (pid (fst (Load_joint GetJoint e))) = 0
       \<and> dGain (pid (fst (Load_joint GetJoint e))) = 0
       \<and> snd (compute (pid (fst (Load_joint GetJoint e))) target measured dt) = 0
       \<and> snd (Load_joint GetJoint e) =
           (if GetJoint (sdf_name e) = None
            then [gzerr (''cannot get joint with name:'' @ sdf_name e)] else [])
       \<and> (HasElement e' ''p'' \<longrightarrow>
            pid (fst (Load_joint GetJoint e')) =
              PIDRegulator_default
                \<lparr>pGain := Get_double e' ''p'', iGain := Get_double e' ''i'',
                 dGain := Get_double e' ''d'',
                 integralMax := Get_double e' ''imax'', integralMin := Get_double e' ''imin'',
                 outputMax := Get_double e' ''cmdmax'', outputMin := Get_double e' ''cmdmin''\<rparr>)"
proof -
  have keep: "SetPIDParams jc e = jc" for jc
    using assms by (simp add: SetPIDParams_def)
  have dflt: "pid (fst (Load_joint GetJoint e)) = PIDRegulator_default"
    by (simp add: Load_joint_pid keep JointControl_new_def)
  have inert: "snd (compute PIDRegulator_default target measured dt) = 0"
    by (simp add: compute_def Let_def clamp_def PIDRegulator_default_def)
  have gains: "HasElement e' ''p'' \<longrightarrow>
            pid (fst (Load_joint GetJoint e')) =
              PIDRegulator_default
                \<lparr>pGain := Get_double e' ''p'', iGain := Get_double e' ''i'',
                 dGain := Get_double e' ''d'',
                 integralMax := Get_double e' ''imax'', integralMin := Get_double e' ''imin'',
                 outputMax := Get_double e' ''cmdmax'', outputMin := Get_double e' ''cmdmin''\<rparr>"
    by (simp add: Load_joint_pid SetPIDParams_def Let_def JointControl_SetPIDParams_def
        JointControl_new_def)
  show ?thesis
    using gains by (simp add: keep dflt inert Load_joint_errors) (simp add: PIDRegulator_default_def)
qed

theorem no_gain_block_keeps_default_regulator_witness:
  "\<not> HasElement (sdf_joint_control example_sdf ! 2) ''p''
   \<and> pid (joints example_controller ! 2) = PIDRegulator_default
   \<and> pGain (pid (joints example_controller ! 2)) = 0
   \<and> snd (Load ZephyrController_new example_GetJoint example_sdf) = []
   \<and> pGain (pid (joints example_controller ! 0)) = 2
   \<and> outputMax (pid (joints example_controller ! 0)) = 10"
proof -
  have h: "\<not> HasElement (sdf_joint_control example_sdf ! 2) ''p''"
    by (simp add: example_sdf_def HasElement_def)
  have h0: "HasElement (sdf_joint_control example_sdf ! 0) ''p''"
    by (simp add: example_sdf_def HasElement_def)
  note inst = no_gain_block_keeps_default_regulator
    [OF h, of _ example_GetJoint _ _ _ "sdf_joint_control example_sdf ! 0"]
  have j2: "joints example_controller ! 2 =
      fst (Load_joint example_GetJoint (sdf_joint_control example_sdf ! 2))"
    and j0: "joints example_controller ! 0 =
      fst (Load_joint example_GetJoint (sdf_joint_control example_sdf ! 0))"
    by (simp_all add: example_controller_def Load_new_joints example_sdf_def)
  have "pid (joints example_controller ! 2) = PIDRegulator_default"
    and "pGain (pid (joints example_controller ! 2)) = 0"
    using inst by (simp_all add: j2 PIDRegulator_default_def)
  moreover have "pGain (pid (joints example_controller ! 0)) = 2"
    and "outputMax (pid (joints example_controller ! 0)) = 10"
    using inst h0 by (simp_all add: j0 Get_double_def example_sdf_def PIDRegulator_default_def)
  moreover have "snd (Load ZephyrController_new example_GetJoint example_sdf) = []"
    by (simp add: Load_errors example_sdf_def example_GetJoint_def)
  ultimately show ?thesis using h by blast
qed

text \<open>
  C9. On a tick with a publisher on the command topic, the joint list is indexed out of
  range exactly when it has fewer than three bindings; a controller loaded from a
  configuration has as many bindings as the configuration has descriptors.
\<close>

theorem joint_index_out_of_range:
  assumes "0 < control_NumPublishers inp"
  shows "(snd (UpdateStates c inp) = Inl OutOfRange) = (length (joints c) < 3)
         \<and> length (joints (fst (Load ZephyrController_new GetJoint sdf)))
             = length (sdf_joint_control sdf)"
proof -
  have "(snd (UpdateStates c inp) = Inl OutOfRange) = (length (joints c) < 3)"
  proof (cases "length (joints c) < 3")
    case True
    then show ?thesis using assms by (simp add: UpdateStates_error)
  next
    case False
    then have "3 \<le> length (joints c)" by simp
    from UpdateStates_joints [OF assms this] False show ?thesis by auto
  qed
  then show ?thesis
    by (simp add: Load_frame ZephyrController_new_def)
qed

theorem joint_index_out_of_range_witness:
  "0 < control_NumPublishers example_tick
   \<and> length (sdf_joint_control (example_sdf\<lparr>sdf_joint_control := take 2 (sdf_joint_control example_sdf)\<rparr>)) = 2
   \<and> snd (UpdateStates
        (fst (Load ZephyrController_new example_GetJoint
               (example_sdf\<lparr>sdf_joint_control := take 2 (sdf_joint_control example_sdf)\<rparr>)))
        example_tick) = Inl OutOfRange"
  using joint_index_out_of_range [of example_tick
      "fst (Load ZephyrController_new example_GetJoint
             (example_sdf\<lparr>sdf_joint_control := take 2 (sdf_joint_control example_sdf)\<rparr>))"
      example_GetJoint
      "example_sdf\<lparr>sdf_joint_control := take 2 (sdf_joint_control example_sdf)\<rparr>"]
  by (simp add: example_tick_def example_sdf_def)

text \<open>
  C10. \<^verbatim>\<open>SetControl\<close> writes the three setpoint fields from \<open>linear.x\<close>,
  \<open>angular.y\<close> and \<open>angular.x\<close> of the message and changes nothing else; a second
  message overwrites the first completely, and a tick after two messages commands the
  joints from the second message alone.
\<close>

theorem setpoint_update_frame:
  "targetThrottle (SetControl c m) = linear_x m
   \<and> targetPitch (SetControl c m) = angular_y m
   \<and> targetRoll (SetControl c m) = angular_x m
   \<and> lastUpdateTime (SetControl c m) = lastUpdateTime c
   \<and> lastPosePublishTime (SetControl c m) = lastPosePublishTime c
   \<and> poseUpdateRate (SetControl c m) = poseUpdateRate c
   \<and> joints (SetControl c m) = joints c
   \<and> SetControl c m = c\<lparr>targetThrottle := linear_x m, targetPitch := angular_y m,
                          targetRoll := angular_x m\<rparr>
   \<and> SetControl (SetControl c m1) m2 = SetControl c m2
   \<and> UpdateStates (SetControl (SetControl c m1) m2) inp = UpdateStates (SetControl c m2) inp
   \<and> (0 < control_NumPublishers inp \<and> 3 \<le> length (joints c) \<longrightarrow>
        (\<exists>c' out. snd (UpdateStates (SetControl (SetControl c m1) m2) inp) = Inr (c', out)
           \<and> map (\<lambda>(k, v, dt). v) (calls out) =
               [linear_x m2,
                (Rot_Euler_X (WorldPose inp) - angular_y m2)
                  - (Rot_Euler_Y (WorldPose inp) - angular_x m2),
                (Rot_Euler_X (WorldPose inp) - angular_y m2)
                  + (Rot_Euler_Y (WorldPose inp) - angular_x m2)]))"
proof -
  have twice: "SetControl (SetControl c m1) m2 = SetControl c m2"
    by (simp add: SetControl_def)
  have tick: "0 < control_NumPublishers inp \<and> 3 \<le> length (joints c) \<longrightarrow>
        (\<exists>c' out. snd (UpdateStates (SetControl c m2) inp) = Inr (c', out)
           \<and> map (\<lambda>(k, v, dt). v) (calls out) =
               [linear_x m2,
                (Rot_Euler_X (WorldPose inp) - angular_y m2)
                  - (Rot_Euler_Y (WorldPose inp) - angular_x m2),
                (Rot_Euler_X (WorldPose inp) - angular_y m2)
                  + (Rot_Euler_Y (WorldPose inp) - angular_x m2)])"
  proof
    assume a: "0 < control_NumPublishers inp \<and> 3 \<le> length (joints c)"
    then have "0 < control_NumPublishers inp" and "3 \<le> length (joints (SetControl c m2))"
      by (simp_all add: SetControl_def)
    from UpdateStates_joints [OF this] obtain c' out where
      "snd (UpdateStates (SetControl c m2) inp) = Inr (c', out)"
      and "calls out =
          (let dt = (if lastUpdateTime (SetControl c m2) = 0 then 0
                     else SimTime inp - lastUpdateTime (SetControl c m2));
               pitch = Rot_Euler_X (WorldPose inp) - targetPitch (SetControl c m2);
               roll = Rot_Euler_Y (WorldPose inp) - targetRoll (SetControl c m2)
           in [(0, targetThrottle (SetControl c m2), dt), (1, pitch - roll, dt),
               (2, pitch + roll, dt)])"
      by blast
    then show "\<exists>c' out. snd (UpdateStates (SetControl c m2) inp) = Inr (c', out)
           \<and> map (\<lambda>(k, v, dt). v) (calls out) =
               [linear_x m2,
                (Rot_Euler_X (WorldPose inp) - angular_y m2)
                  - (Rot_Euler_Y (WorldPose inp) - angular_x m2),
                (Rot_Euler_X (WorldPose inp) - angular_y m2)
                  + (Rot_Euler_Y (WorldPose inp) - angular_x m2)]"
      by (simp add: Let_def SetControl_def)
  qed
  show ?thesis
    unfolding twice using tick by (simp add: SetControl_def)
qed

theorem setpoint_update_frame_witness:
  "0 < control_NumPublishers example_tick \<and> 3 \<le> length (joints example_controller)
   \<and> (\<exists>c' out. snd (UpdateStates
          (SetControl (SetControl example_controller
             \<lparr>linear_x = 9, linear_y = 0, linear_z = 0,
              angular_x = 8, angular_y = 7, angular_z = 0\<rparr>) example_twist) example_tick)
          = Inr (c', out)
        \<and> map (\<lambda>(k, v, dt). v) (calls out) = [1 / 2, 2 / 10, 2 / 10])"
proof -
  have hyp: "0 < control_NumPublishers example_tick \<and> 3 \<le> length (joints example_controller)"
    by (simp add: example_controller_length example_tick_def)
  have "0 < control_NumPublishers example_tick \<and> 3 \<le> length (joints example_controller) \<longrightarrow>
        (\<exists>c' out. snd (UpdateStates
            (SetControl (SetControl example_controller
               \<lparr>linear_x = 9, linear_y = 0, linear_z = 0,
                angular_x = 8, angular_y = 7, angular_z = 0\<rparr>) example_twist) example_tick)
            = Inr (c', out)
           \<and> map (\<lambda>(k, v, dt). v) (calls out) =
               [linear_x example_twist,
                (Rot_Euler_X (WorldPose example_tick) - angular_y example_twist)
                  - (Rot_Euler_Y (WorldPose example_tick) - angular_x example_twist),
                (Rot_Euler_X (WorldPose example_tick) - angular_y example_twist)
                  + (Rot_Euler_Y (WorldPose example_tick) - angular_x example_twist)])"
    using setpoint_update_frame [of example_controller example_twist
      "\<lparr>linear_x = 9, linear_y = 0, linear_z = 0, angular_x = 8, angular_y = 7, angular_z = 0\<rparr>"
      example_twist example_tick]
    by (elim conjE)
  with hyp show ?thesis
    by (simp add: example_tick_def example_pose_def example_twist_def)
qed

end
